theory Spec2Isabelle
  imports
    Complex_Main
    "HOL-Library.Product_Lexorder"
    "HOL-Library.Multiset"
begin

section \<open>Values\<close>

text \<open>
  The six metrics are Python floats: \<^verbatim>\<open>float(request.form['temperature'])\<close> accepts
  every decimal literal and also \<^verbatim>\<open>inf\<close>, \<^verbatim>\<open>-inf\<close> and \<^verbatim>\<open>nan\<close>. A finite
  double is a rational number, and Python compares an \<^verbatim>\<open>int\<close> with a \<^verbatim>\<open>float\<close> by
  their exact values, so a finite float is modelled by the real number it denotes; the
  three special values are constructors of their own.
\<close>

datatype pyfloat = Finite real | PosInf | NegInf | NaN

text \<open>\<^verbatim>\<open>n <= x\<close> and \<^verbatim>\<open>x <= n\<close> for an int \<open>n\<close> and a float \<open>x\<close>; every comparison
  with \<^verbatim>\<open>nan\<close> is false.\<close>

fun int_le_float :: "int \<Rightarrow> pyfloat \<Rightarrow> bool" where
  "int_le_float n (Finite r) = (of_int n \<le> r)"
| "int_le_float n PosInf = True"
| "int_le_float n NegInf = False"
| "int_le_float n NaN = False"

fun float_le_int :: "pyfloat \<Rightarrow> int \<Rightarrow> bool" where
  "float_le_int (Finite r) n = (r \<le> of_int n)"
| "float_le_int PosInf n = False"
| "float_le_int NegInf n = True"
| "float_le_int NaN n = False"

section \<open>Range validators (utils.py)\<close>

text \<open>A chained comparison \<^verbatim>\<open>a <= x <= b\<close> is \<^verbatim>\<open>a <= x and x <= b\<close>.\<close>

definition check_temperature :: "pyfloat \<Rightarrow> bool" where
  "check_temperature temperature \<longleftrightarrow> int_le_float 20 temperature \<and> float_le_int temperature 25"

definition check_humidity :: "pyfloat \<Rightarrow> bool" where
  "check_humidity humidity \<longleftrightarrow> int_le_float 40 humidity \<and> float_le_int humidity 60"

definition check_co2 :: "pyfloat \<Rightarrow> bool" where
  "check_co2 co2 \<longleftrightarrow> int_le_float 400 co2 \<and> float_le_int co2 1000"

definition check_light_intensity :: "pyfloat \<Rightarrow> bool" where
  "check_light_intensity light_intensity \<longleftrightarrow>
     int_le_float 1000 light_intensity \<and> float_le_int light_intensity 10000"

definition check_soil_ph :: "pyfloat \<Rightarrow> bool" where
  "check_soil_ph soil_ph \<longleftrightarrow> int_le_float 6 soil_ph \<and> float_le_int soil_ph 7"

definition check_soil_moisture :: "pyfloat \<Rightarrow> bool" where
  "check_soil_moisture soil_moisture \<longleftrightarrow>
     int_le_float 30 soil_moisture \<and> float_le_int soil_moisture 60"

section \<open>Strings\<close>

text \<open>A Python \<^verbatim>\<open>str\<close> is modelled by the list of its UTF-8 bytes. The degree sign of the
  violation messages (U+00B0) is two bytes; the apostrophe and the line feed are written
  by their codes.\<close>

definition degree :: string where
  "degree = [CHR 0xC2, CHR 0xB0]"

definition apostrophe :: string where
  "apostrophe = [CHR 0x27]"

definition newline :: string where
  "newline = [CHR 0x0A]"

text \<open>\<^verbatim>\<open>sep.join(parts)\<close>\<close>

fun join :: "string \<Rightarrow> string list \<Rightarrow> string" where
  "join sep [] = []"
| "join sep [x] = x"
| "join sep (x # y # ys) = x @ sep @ join sep (y # ys)"

text \<open>The decimal digits of a non-negative \<^verbatim>\<open>int\<close>, as an f-string prints it.\<close>

fun str_nat :: "nat \<Rightarrow> string" where
  "str_nat n =
     (if n < 10 then [''0123456789'' ! n]
      else str_nat (n div 10) @ [''0123456789'' ! (n mod 10)])"

declare str_nat.simps [simp del]

section \<open>Data model (models/*.py)\<close>

text \<open>A \<^verbatim>\<open>DateTime\<close> is a point of a linear order; primary keys are the non-negative
  integers the routes accept (\<^verbatim>\<open><int:greenhouse_id>\<close>).\<close>

type_synonym timestamp = nat

record greenhouse =
  gh_id :: nat
  gh_name :: string
  gh_location :: string
  gh_status :: string
  gh_issue_description :: "string option"

record employee =
  emp_id :: nat
  emp_name :: string
  emp_email :: string
  emp_password_hash :: string
  emp_available :: bool
  emp_greenhouse_id :: "nat option"
  emp_company_id :: string
  emp_is_admin :: bool

record environmental_data =
  env_id :: nat
  env_greenhouse_id :: nat
  env_temperature :: pyfloat
  env_humidity :: pyfloat
  env_co2 :: pyfloat
  env_light_intensity :: pyfloat
  env_soil_ph :: pyfloat
  env_soil_moisture :: pyfloat
  env_timestamp :: timestamp
  env_source :: string

text \<open>\<open>issue_created_at\<close> has the column default \<^verbatim>\<open>datetime.utcnow\<close>, evaluated when the
  row is inserted, so a stored row always carries one; \<open>issue_resolved_at\<close> is nullable.\<close>

record issue =
  issue_id :: nat
  issue_greenhouse_id :: nat
  issue_description :: string
  issue_status :: string
  issue_created_at :: timestamp
  issue_resolved_at :: "timestamp option"

text \<open>The database: one list of rows per table, in insertion order.\<close>

record store =
  greenhouses :: "greenhouse list"
  employees :: "employee list"
  issues :: "issue list"
  environmental_data :: "environmental_data list"

text \<open>The key an autoincrement primary key column gives the next inserted row.\<close>

definition next_id :: "nat list \<Rightarrow> nat" where
  "next_id ids = Suc (fold max ids 0)"

text \<open>\<^verbatim>\<open>Model.query.get(id)\<close>\<close>

definition get_greenhouse :: "store \<Rightarrow> nat \<Rightarrow> greenhouse option" where
  "get_greenhouse s i = find (\<lambda>gh. gh_id gh = i) (greenhouses s)"

definition get_employee :: "store \<Rightarrow> nat \<Rightarrow> employee option" where
  "get_employee s i = find (\<lambda>e. emp_id e = i) (employees s)"

definition get_issue :: "store \<Rightarrow> nat \<Rightarrow> issue option" where
  "get_issue s i = find (\<lambda>j. issue_id j = i) (issues s)"

text \<open>The relationships \<^verbatim>\<open>Greenhouse.employees\<close>, \<^verbatim>\<open>Greenhouse.issues\<close> and the backref
  \<^verbatim>\<open>Issue.originating_greenhouse\<close>, each a join on the foreign key.\<close>

definition gh_employees :: "store \<Rightarrow> greenhouse \<Rightarrow> employee list" where
  "gh_employees s gh = filter (\<lambda>e. emp_greenhouse_id e = Some (gh_id gh)) (employees s)"

definition gh_issues :: "store \<Rightarrow> greenhouse \<Rightarrow> issue list" where
  "gh_issues s gh = filter (\<lambda>j. issue_greenhouse_id j = gh_id gh) (issues s)"

definition originating_greenhouse :: "store \<Rightarrow> issue \<Rightarrow> greenhouse option" where
  "originating_greenhouse s j = get_greenhouse s (issue_greenhouse_id j)"

section \<open>Configuration (config.py)\<close>

definition NORMAL_TEMP :: pyfloat where "NORMAL_TEMP = Finite 22.5"
definition NORMAL_HUMIDITY :: pyfloat where "NORMAL_HUMIDITY = Finite 50.0"
definition NORMAL_CO2 :: pyfloat where "NORMAL_CO2 = Finite 700.0"
definition NORMAL_LIGHT :: pyfloat where "NORMAL_LIGHT = Finite 5000.0"
definition NORMAL_PH :: pyfloat where "NORMAL_PH = Finite 6.5"
definition NORMAL_MOISTURE :: pyfloat where "NORMAL_MOISTURE = Finite 45.0"

text \<open>The mail settings \<^verbatim>\<open>send_email_notification\<close> reads. \<open>MAIL_DEFAULT_SENDER\<close> is
  \<^verbatim>\<open>None\<close> when no \<open>MAIL_USERNAME\<close> is set.\<close>

record mail_config =
  MAIL_ENABLED :: bool
  MAIL_DEFAULT_SENDER :: "(string \<times> string) option"
  MAIL_PASSWORD :: "string option"
  MAIL_SERVER :: string

section \<open>Requests, responses and the world outside the program\<close>

datatype http_method = GET | POST

record request =
  session_employee_id :: "nat option"
  request_method :: http_method
  form :: "string \<rightharpoonup> string"
  referrer :: "string option"

datatype response =
    RedirectLogin
  | Redirect string
  | Render string
  | BadRequest400
  | NotFound404
  | MethodNotAllowed405
  | InternalError500

datatype log_level = INFO | WARNING | ERROR

record notification =
  subject :: string
  recipients :: "string list"
  body :: string

text \<open>What a request produces besides the new database: the response, the flashed
  messages \<open>(message, category)\<close> the user sees, the records written to the application
  log, and the notifications handed to \<^verbatim>\<open>send_email_notification\<close>.\<close>

record outcome =
  response :: response
  flashes :: "(string \<times> string) list"
  logs :: "(log_level \<times> string) list"
  mails :: "notification list"

definition reply :: "response \<Rightarrow> (string \<times> string) list \<Rightarrow> outcome" where
  "reply r fl = \<lparr>response = r, flashes = fl, logs = [], mails = []\<rparr>"

text \<open>
  Everything a request reads from outside the program, given explicitly:
  \<^item> \<open>py_float\<close>: the builtin \<^verbatim>\<open>float(str)\<close>, \<open>None\<close> when it raises \<^verbatim>\<open>ValueError\<close>;
  \<^item> \<open>py_format\<close>: the text an f-string prints for a float;
  \<^item> \<open>utcnow k\<close>: what the \<open>k\<close>-th call of \<^verbatim>\<open>datetime.utcnow()\<close> in the request returns;
  \<^item> \<open>commit_succeeds\<close>: whether \<^verbatim>\<open>db.session.commit()\<close> returns or raises;
  \<^item> \<open>mail\<close>: the mail settings of the application;
  \<^item> \<open>smtp_delivers\<close>: whether the SMTP conversation of \<^verbatim>\<open>send_email_notification\<close>
    goes through.
\<close>

record world =
  py_float :: "string \<Rightarrow> pyfloat option"
  py_format :: "pyfloat \<Rightarrow> string"
  utcnow :: "nat \<Rightarrow> timestamp"
  commit_succeeds :: bool
  mail :: mail_config
  smtp_delivers :: "notification \<Rightarrow> bool"

datatype py_error = ValueError | KeyError | TypeError | StorageError

section \<open>Sending mail (utils.py)\<close>

text \<open>
  \<^verbatim>\<open>send_email_notification(subject, recipients, body)\<close>: \<open>Inr sent\<close> with the log
  records it writes, or the exception that leaves it. Unpacking a \<open>MAIL_DEFAULT_SENDER\<close>
  that is \<^verbatim>\<open>None\<close> raises \<^verbatim>\<open>TypeError\<close> before the \<^verbatim>\<open>try\<close>; every failure of the
  SMTP conversation is caught and becomes \<^verbatim>\<open>False\<close>. (The texts of the log records
  are shortened to their fixed part.)
\<close>

definition send_email_notification ::
  "world \<Rightarrow> notification \<Rightarrow> py_error + (bool \<times> (log_level \<times> string) list)" where
  "send_email_notification w n =
     (if \<not> MAIL_ENABLED (mail w)
      then Inr (False, [(INFO, ''Email notifications are disabled in config.'')])
      else case MAIL_DEFAULT_SENDER (mail w) of
        None \<Rightarrow> Inl TypeError
      | Some (sender_name, sender_email) \<Rightarrow>
          if sender_email = [] \<or> MAIL_PASSWORD (mail w) = None \<or> MAIL_PASSWORD (mail w) = Some []
             \<or> MAIL_SERVER (mail w) = []
          then Inr (False, [(ERROR, ''Mail server configuration incomplete. Cannot send email.'')])
          else if recipients n = []
          then Inr (False, [(INFO, ''No recipients provided for email notification.'')])
          else if smtp_delivers w n
          then Inr (True, [(INFO, ''Email sent successfully to: '' @ join '', '' (recipients n))])
          else Inr (False, [(ERROR, ''Failed to send email'')]))"

section \<open>Login (app.py, lines 48-67)\<close>

text \<open>
  The \<^verbatim>\<open>before_request\<close> hook \<^verbatim>\<open>load_logged_in_user\<close> sets \<^verbatim>\<open>g.employee\<close>; when the
  session names an employee that no longer exists it clears the session and flashes.
  The result is \<^verbatim>\<open>g.employee\<close>, whether the session still holds \<^verbatim>\<open>employee_id\<close>, and
  the messages flashed.
\<close>

definition load_logged_in_user ::
  "store \<Rightarrow> request \<Rightarrow> employee option \<times> bool \<times> (string \<times> string) list" where
  "load_logged_in_user s rq =
     (case session_employee_id rq of
        None \<Rightarrow> (None, False, [])
      | Some employee_id \<Rightarrow>
          (case get_employee s employee_id of
             None \<Rightarrow> (None, False, [(''Your session was invalid. Please log in again.'', ''error'')])
           | Some e \<Rightarrow> (Some e, True, [])))"

text \<open>
  The decorator \<^verbatim>\<open>login_required\<close>, after the hook: \<open>Inl\<close> the redirect to the login
  page, or \<open>Inr\<close> the logged-in employee, with whom the view function runs.
\<close>

definition login_required :: "store \<Rightarrow> request \<Rightarrow> outcome + employee" where
  "login_required s rq =
     (case load_logged_in_user s rq of
        (Some e, True, fl) \<Rightarrow> Inr e
      | (_, _, fl) \<Rightarrow>
          Inl (reply RedirectLogin (fl @ [(''Please log in to access this page.'', ''warning'')])))"

section \<open>Recording a reading (app.py, \<^verbatim>\<open>input_form\<close>, lines 237-340)\<close>

text \<open>\<^verbatim>\<open>float(request.form[key])\<close>: a missing key raises werkzeug's
  \<^verbatim>\<open>BadRequestKeyError\<close> (a \<^verbatim>\<open>KeyError\<close>), text that is no number \<^verbatim>\<open>ValueError\<close>.\<close>

definition read_field :: "world \<Rightarrow> request \<Rightarrow> string \<Rightarrow> py_error + pyfloat" where
  "read_field w rq key =
     (case form rq key of
        None \<Rightarrow> Inl KeyError
      | Some v \<Rightarrow> (case py_float w v of None \<Rightarrow> Inl ValueError | Some x \<Rightarrow> Inr x))"

definition bind_result :: "'e + 'a \<Rightarrow> ('a \<Rightarrow> 'e + 'b) \<Rightarrow> 'e + 'b" where
  "bind_result r f = (case r of Inl e \<Rightarrow> Inl e | Inr x \<Rightarrow> f x)"

text \<open>Lines 247-252: the six fields, read in this order; the first failure wins.\<close>

definition read_form ::
  "world \<Rightarrow> request \<Rightarrow>
   py_error + (pyfloat \<times> pyfloat \<times> pyfloat \<times> pyfloat \<times> pyfloat \<times> pyfloat)" where
  "read_form w rq =
     bind_result (read_field w rq ''temperature'') (\<lambda>temperature.
     bind_result (read_field w rq ''humidity'') (\<lambda>humidity.
     bind_result (read_field w rq ''co2'') (\<lambda>co2.
     bind_result (read_field w rq ''light_intensity'') (\<lambda>light_intensity.
     bind_result (read_field w rq ''soil_ph'') (\<lambda>soil_ph.
     bind_result (read_field w rq ''soil_moisture'') (\<lambda>soil_moisture.
       Inr (temperature, humidity, co2, light_intensity, soil_ph, soil_moisture)))))))"

text \<open>Lines 266-277: the list \<^verbatim>\<open>issue_description_parts\<close>, appended to check by check.\<close>

definition issue_description_parts ::
  "(pyfloat \<Rightarrow> string) \<Rightarrow> pyfloat \<Rightarrow> pyfloat \<Rightarrow> pyfloat \<Rightarrow> pyfloat \<Rightarrow> pyfloat \<Rightarrow> pyfloat
   \<Rightarrow> string list" where
  "issue_description_parts fmt temperature humidity co2 light_intensity soil_ph soil_moisture =
     (let parts = [];
          parts = (if \<not> check_temperature temperature
                   then parts @ [''Temperature '' @ fmt temperature @ degree
                                   @ ''C is out of range (20-25'' @ degree @ ''C).'']
                   else parts);
          parts = (if \<not> check_humidity humidity
                   then parts @ [''Humidity '' @ fmt humidity @ ''% is out of range (40-60%).'']
                   else parts);
          parts = (if \<not> check_co2 co2
                   then parts @ [''CO2 '' @ fmt co2 @ '' ppm is out of range (400-1000 ppm).'']
                   else parts);
          parts = (if \<not> check_light_intensity light_intensity
                   then parts @ [''Light Intensity '' @ fmt light_intensity
                                   @ '' lux is out of range (1000-10000 lux).'']
                   else parts);
          parts = (if \<not> check_soil_ph soil_ph
                   then parts @ [''Soil pH '' @ fmt soil_ph @ '' is out of range (6.0-7.0).'']
                   else parts);
          parts = (if \<not> check_soil_moisture soil_moisture
                   then parts @ [''Soil Moisture '' @ fmt soil_moisture
                                   @ ''% is out of range (30-60%).'']
                   else parts)
      in parts)"

text \<open>Line 282.\<close>

definition full_issue_description :: "greenhouse \<Rightarrow> string list \<Rightarrow> string" where
  "full_issue_description greenhouse parts =
     ''Alert for Greenhouse '' @ apostrophe @ gh_name greenhouse @ apostrophe
       @ '' ('' @ gh_location greenhouse @ ''):'' @ newline @ ''- ''
       @ join (newline @ ''- '') parts"

text \<open>Line 296.\<close>

definition recipient_emails :: "store \<Rightarrow> greenhouse \<Rightarrow> string list" where
  "recipient_emails s greenhouse =
     map emp_email (filter (\<lambda>emp. emp_email emp \<noteq> [] \<and> emp_available emp) (gh_employees s greenhouse))"

text \<open>
  Lines 254-305, the session before the commit: the pending database, the notifications
  to send after it and the log records written. The reading's timestamp is the first
  clock reading of the request; the issue's \<open>created_at\<close> default is evaluated when the row
  is inserted, a second clock reading.
\<close>

definition stage_reading ::
  "world \<Rightarrow> store \<Rightarrow> greenhouse \<Rightarrow> nat \<Rightarrow>
   (pyfloat \<times> pyfloat \<times> pyfloat \<times> pyfloat \<times> pyfloat \<times> pyfloat) \<Rightarrow>
   store \<times> notification list \<times> (log_level \<times> string) list" where
  "stage_reading w s greenhouse greenhouse_id vals =
     (case vals of (temperature, humidity, co2, light_intensity, soil_ph, soil_moisture) \<Rightarrow>
      let new_data = \<lparr>env_id = next_id (map env_id (environmental_data s)),
                       env_greenhouse_id = greenhouse_id,
                       env_temperature = temperature, env_humidity = humidity, env_co2 = co2,
                       env_light_intensity = light_intensity, env_soil_ph = soil_ph,
                       env_soil_moisture = soil_moisture,
                       env_timestamp = utcnow w 0,
                       env_source = ''manual''\<rparr>;
          s1 = s\<lparr>environmental_data := environmental_data s @ [new_data]\<rparr>;
          parts = issue_description_parts (py_format w)
                    temperature humidity co2 light_intensity soil_ph soil_moisture
      in if parts \<noteq> [] then
           let description = full_issue_description greenhouse parts;
               new_issue = \<lparr>issue_id = next_id (map issue_id (issues s)),
                            issue_greenhouse_id = greenhouse_id,
                            issue_description = description,
                            issue_status = ''Ongoing'',
                            issue_created_at = utcnow w 1,
                            issue_resolved_at = None\<rparr>;
               s2 = s1\<lparr>issues := issues s1 @ [new_issue]\<rparr>;
               subj = ''Alert: GreenHouse Notification For '' @ apostrophe
                        @ gh_name greenhouse @ apostrophe;
               rcpts = recipient_emails s greenhouse
           in if rcpts \<noteq> [] then
                (s2, [\<lparr>subject = subj, recipients = rcpts,
                        body = description @ newline @ newline
                                 @ ''Please investigate and resolve the issue.''\<rparr>], [])
              else
                (s2, [], [(WARNING, ''Issue detected in Greenhouse '' @ apostrophe
                             @ gh_name greenhouse @ apostrophe
                             @ '', but no active employees with emails are assigned.'')])
         else (s1, [], []))"

text \<open>Lines 326-335: after the commit, each notification is handed to
  \<^verbatim>\<open>send_email_notification\<close>; an exception leaving it ends the request with an error
  page, the database staying as committed.\<close>

fun send_notifications :: "world \<Rightarrow> notification list \<Rightarrow> outcome \<Rightarrow> outcome" where
  "send_notifications w [] out = out"
| "send_notifications w (n # ns) out =
     (case send_email_notification w n of
        Inl e \<Rightarrow> out\<lparr>response := InternalError500, mails := mails out @ [n]\<rparr>
      | Inr (email_sent, lg) \<Rightarrow>
          send_notifications w ns
            (out\<lparr>mails := mails out @ [n],
                 logs := logs out @ lg,
                 flashes := flashes out @
                   (if \<not> email_sent
                    then [(''Alert logged, but failed to send email notification to ''
                             @ join '', '' (recipients n) @ ''. Please check system logs.'',
                           ''danger'')]
                    else [])\<rparr>))"

definition input_form :: "world \<Rightarrow> store \<Rightarrow> request \<Rightarrow> nat \<Rightarrow> outcome \<times> store" where
  "input_form w s rq greenhouse_id =
     (case login_required s rq of
        Inl out \<Rightarrow> (out, s)
      | Inr g_employee \<Rightarrow>
     (case get_greenhouse s greenhouse_id of
        None \<Rightarrow> (reply NotFound404 [], s)
      | Some greenhouse \<Rightarrow>
          if request_method rq = POST then
            (case read_form w rq of
               Inl ValueError \<Rightarrow>
                 (reply (Render ''input_form.html'')
                    [(''Invalid input. Please ensure all fields are numbers.'', ''error'')], s)
             | Inl e \<Rightarrow>
                 ((reply (Render ''input_form.html'')
                     [(''An error occurred while saving data or logging the issue.'', ''error'')])
                   \<lparr>logs := [(ERROR, ''Error saving data/issue for G'' @ str_nat greenhouse_id)]\<rparr>, s)
             | Inr vals \<Rightarrow>
                 (case stage_reading w s greenhouse greenhouse_id vals of
                    (s', notifications_to_send, lg) \<Rightarrow>
                      if commit_succeeds w then
                        (send_notifications w notifications_to_send
                           ((reply (Redirect (''/input/'' @ str_nat greenhouse_id))
                               [(''Data recorded successfully!'', ''success'')])\<lparr>logs := lg\<rparr>),
                         s')
                      else
                        ((reply (Render ''input_form.html'')
                            [(''An error occurred while saving data or logging the issue.'', ''error'')])
                          \<lparr>logs := lg @ [(ERROR, ''Error saving data/issue for G''
                                                    @ str_nat greenhouse_id)]\<rparr>, s)))
          else (reply (Render ''input_form.html'') [], s)))"

section \<open>Resolving an issue (app.py, \<^verbatim>\<open>resolve_issue\<close>, lines 345-386)\<close>

text \<open>The truth value of an optional integer: \<^verbatim>\<open>None\<close> and \<^verbatim>\<open>0\<close> are false.\<close>

definition truthy_id :: "nat option \<Rightarrow> bool" where
  "truthy_id x \<longleftrightarrow> x \<noteq> None \<and> x \<noteq> Some 0"

text \<open>Lines 352-354.\<close>

definition can_resolve :: "store \<Rightarrow> employee \<Rightarrow> issue \<Rightarrow> bool" where
  "can_resolve s g_employee issue =
     (if emp_is_admin g_employee then True
      else if originating_greenhouse s issue \<noteq> None
              \<and> truthy_id (emp_greenhouse_id g_employee)
              \<and> Some (issue_greenhouse_id issue) = emp_greenhouse_id g_employee then True
      else False)"

text \<open>\<^verbatim>\<open>redirect(request.referrer or url_for('dashboard'))\<close>\<close>

definition redirect_back :: "request \<Rightarrow> response" where
  "redirect_back rq = Redirect (case referrer rq of
                         None \<Rightarrow> ''/dashboard''
                       | Some r \<Rightarrow> if r = [] then ''/dashboard'' else r)"

text \<open>
  Lines 361-376, the session before the commit: the row of the issue is updated
  (\<^verbatim>\<open>UPDATE issue ... WHERE id = ?\<close>) and the baseline reading is added. \<open>resolved_at\<close>
  is the first clock reading of the request, the reading's timestamp the second.
\<close>

definition stage_resolution :: "world \<Rightarrow> store \<Rightarrow> issue \<Rightarrow> store" where
  "stage_resolution w s issue =
     (let greenhouse_id_affected = issue_greenhouse_id issue;
          normal_data = \<lparr>env_id = next_id (map env_id (environmental_data s)),
                          env_greenhouse_id = greenhouse_id_affected,
                          env_temperature = NORMAL_TEMP, env_humidity = NORMAL_HUMIDITY,
                          env_co2 = NORMAL_CO2, env_light_intensity = NORMAL_LIGHT,
                          env_soil_ph = NORMAL_PH, env_soil_moisture = NORMAL_MOISTURE,
                          env_timestamp = utcnow w 1,
                          env_source = ''resolution''\<rparr>
      in s\<lparr>issues :=
              map (\<lambda>j. if issue_id j = issue_id issue
                        then j\<lparr>issue_status := ''Resolved'',
                               issue_resolved_at := Some (utcnow w 0)\<rparr>
                        else j) (issues s),
            environmental_data := environmental_data s @ [normal_data]\<rparr>)"

text \<open>The route accepts \<^verbatim>\<open>POST\<close> only.\<close>

definition resolve_issue :: "world \<Rightarrow> store \<Rightarrow> request \<Rightarrow> nat \<Rightarrow> outcome \<times> store" where
  "resolve_issue w s rq issue_id' =
     (if request_method rq \<noteq> POST
      then (reply MethodNotAllowed405 (snd (snd (load_logged_in_user s rq))), s)
      else case login_required s rq of
        Inl out \<Rightarrow> (out, s)
      | Inr g_employee \<Rightarrow>
     (case get_issue s issue_id' of
        None \<Rightarrow> (reply NotFound404 [], s)
      | Some issue \<Rightarrow>
          if \<not> can_resolve s g_employee issue then
            (reply (redirect_back rq) [(''You do not have permission to resolve this issue.'', ''error'')], s)
          else if issue_status issue = ''Ongoing'' then
            (if commit_succeeds w then
               (reply (redirect_back rq)
                  [(''Issue #'' @ str_nat (issue_id issue)
                      @ '' marked as resolved. Normal environmental state logged.'', ''success'')],
                stage_resolution w s issue)
             else
               ((reply (redirect_back rq) [(''An error occurred while resolving the issue.'', ''error'')])
                  \<lparr>logs := [(ERROR, ''Error resolving issue '' @ str_nat issue_id')]\<rparr>, s))
          else
            (reply (redirect_back rq)
               [(''Issue #'' @ str_nat (issue_id issue) @ '' was already resolved.'', ''info'')], s)))"

section \<open>The dashboard (app.py, \<^verbatim>\<open>dashboard\<close>, lines 106-172)\<close>

text \<open>
  One entry of \<^verbatim>\<open>greenhouse_display_data\<close>. (The entry's \<^verbatim>\<open>latest_data\<close> and the
  view's \<^verbatim>\<open>assigned_greenhouse_issue\<close> are the first rows of queries ordered by a
  timestamp, which the database picks among equal timestamps; the ordering and the
  counts do not read them, and they are left out.)
\<close>

record display_data =
  dd_greenhouse :: greenhouse
  dd_status_text :: string
  dd_status_class :: string
  dd_has_ongoing_issue :: bool

text \<open>Lines 110-115: \<^verbatim>\<open>Greenhouse.query.order_by(Greenhouse.id).all()\<close>\<close>

definition all_greenhouses :: "store \<Rightarrow> greenhouse list" where
  "all_greenhouses s = sort_key gh_id (greenhouses s)"

text \<open>Lines 117-135.\<close>

definition greenhouse_display_data :: "store \<Rightarrow> display_data list" where
  "greenhouse_display_data s =
     map (\<lambda>gh.
            let has_ongoing_issue = list_ex (\<lambda>issue. issue_status issue = ''Ongoing'') (gh_issues s gh)
            in \<lparr>dd_greenhouse = gh,
                dd_status_text = (if has_ongoing_issue then ''Issue Detected'' else ''Normal''),
                dd_status_class = (if has_ongoing_issue then ''issue-detected'' else ''normal''),
                dd_has_ongoing_issue = has_ongoing_issue\<rparr>)
         (all_greenhouses s)"

text \<open>Lines 138-139; Python orders tuples lexicographically.\<close>

definition sort_key_fn :: "display_data \<Rightarrow> nat \<times> nat" where
  "sort_key_fn gh_data = (if dd_has_ongoing_issue gh_data then 0 else 1, gh_id (dd_greenhouse gh_data))"

text \<open>Lines 141-142; \<^verbatim>\<open>sorted\<close> is stable.\<close>

definition sorted_greenhouses_data :: "store \<Rightarrow> display_data list" where
  "sorted_greenhouses_data s = sort_key sort_key_fn (greenhouse_display_data s)"

definition displayed_greenhouses_data :: "store \<Rightarrow> display_data list" where
  "displayed_greenhouses_data s = take 4 (sorted_greenhouses_data s)"

text \<open>Lines 146-148.\<close>

definition employee_count :: "store \<Rightarrow> nat" where
  "employee_count s = length (employees s)"

definition ongoing_issue_count :: "store \<Rightarrow> nat" where
  "ongoing_issue_count s = length (filter dd_has_ongoing_issue (greenhouse_display_data s))"

definition resolved_issue_count :: "store \<Rightarrow> nat" where
  "resolved_issue_count s = length (filter (\<lambda>j. issue_status j = ''Resolved'') (issues s))"

section \<open>Creating a greenhouse (app.py, \<^verbatim>\<open>create_greenhouse\<close>, lines 445-457)\<close>

text \<open>A missing form field ends the request with werkzeug's \<^verbatim>\<open>BadRequestKeyError\<close>
  (status 400); the commit is not guarded, so its failure is an error page.\<close>

definition create_greenhouse :: "world \<Rightarrow> store \<Rightarrow> request \<Rightarrow> outcome \<times> store" where
  "create_greenhouse w s rq =
     (case login_required s rq of
        Inl out \<Rightarrow> (out, s)
      | Inr g_employee \<Rightarrow>
          if request_method rq = POST then
            (case (form rq ''name'', form rq ''location'') of
               (Some name, Some location) \<Rightarrow>
                 if commit_succeeds w then
                   (reply (Redirect ''/dashboard'') [(''Greenhouse created successfully!'', ''success'')],
                    s\<lparr>greenhouses := greenhouses s @
                         [\<lparr>gh_id = next_id (map gh_id (greenhouses s)),
                           gh_name = name, gh_location = location,
                           gh_status = ''normal'', gh_issue_description = None\<rparr>]\<rparr>)
                 else (reply InternalError500 [], s)
             | _ \<Rightarrow> (reply BadRequest400 [], s))
          else (reply (Render ''create_greenhouse.html'') [], s))"

section \<open>Histories of requests\<close>

text \<open>
  The requests that write to the database. Those for a reading, a resolution and a new
  greenhouse are the view functions above. The remaining writing routes
  (\<^verbatim>\<open>create_employee\<close>, \<^verbatim>\<open>edit_employee\<close>, \<^verbatim>\<open>change_password\<close>, the \<^verbatim>\<open>create-admin\<close>
  command) write to the employee table only; \<open>Staff\<close> stands for any of them and
  replaces that table by arbitrary new contents.
\<close>

datatype action =
    Reading world request nat
  | Resolve world request nat
  | CreateGreenhouse world request
  | Staff "employee list"

fun step :: "store \<Rightarrow> action \<Rightarrow> store" where
  "step s (Reading w rq greenhouse_id) = snd (input_form w s rq greenhouse_id)"
| "step s (Resolve w rq issue_id') = snd (resolve_issue w s rq issue_id')"
| "step s (CreateGreenhouse w rq) = snd (create_greenhouse w s rq)"
| "step s (Staff emps) = s\<lparr>employees := emps\<rparr>"

text \<open>The database after \<^verbatim>\<open>init-db\<close>.\<close>

definition empty_store :: store where
  "empty_store = \<lparr>greenhouses = [], employees = [], issues = [], environmental_data = []\<rparr>"

definition run :: "action list \<Rightarrow> store" where
  "run acts = foldl step empty_store acts"

text \<open>
  The clock readings a request takes, in the order of the calls of \<^verbatim>\<open>datetime.utcnow()\<close>
  (the timestamp of the reading and the \<open>created_at\<close> default of the issue row in
  \<^verbatim>\<open>input_form\<close>; \<open>resolved_at\<close> and the timestamp of the baseline reading in
  \<^verbatim>\<open>resolve_issue\<close>). The clock never runs backwards over a history when the readings of
  its requests, one after the other, do not decrease.
\<close>

fun clock_readings :: "action \<Rightarrow> timestamp list" where
  "clock_readings (Reading w rq greenhouse_id) = [utcnow w 0, utcnow w 1]"
| "clock_readings (Resolve w rq issue_id') = [utcnow w 0, utcnow w 1]"
| "clock_readings (CreateGreenhouse w rq) = []"
| "clock_readings (Staff emps) = []"

definition clock_monotone :: "action list \<Rightarrow> bool" where
  "clock_monotone acts \<longleftrightarrow> sorted (concat (map clock_readings acts))"

section \<open>Notions of the specification\<close>

text \<open>The violation strings of a stored reading: the validators applied to its six
  values.\<close>

definition reading_violations :: "(pyfloat \<Rightarrow> string) \<Rightarrow> environmental_data \<Rightarrow> string list" where
  "reading_violations fmt r =
     issue_description_parts fmt (env_temperature r) (env_humidity r) (env_co2 r)
       (env_light_intensity r) (env_soil_ph r) (env_soil_moisture r)"

text \<open>A greenhouse has an ongoing issue when some issue of the issue table refers to it
  and has status \<^verbatim>\<open>Ongoing\<close>.\<close>

definition has_ongoing_issue :: "store \<Rightarrow> greenhouse \<Rightarrow> bool" where
  "has_ongoing_issue s gh \<longleftrightarrow>
     list_ex (\<lambda>j. issue_greenhouse_id j = gh_id gh \<and> issue_status j = ''Ongoing'') (issues s)"

text \<open>The employee is assigned to the greenhouse of the issue.\<close>

definition assigned_to :: "employee \<Rightarrow> issue \<Rightarrow> bool" where
  "assigned_to e j \<longleftrightarrow> emp_greenhouse_id e = Some (issue_greenhouse_id j)"

text \<open>The message of a refused resolve request.\<close>

definition permission_denied :: "request \<Rightarrow> outcome" where
  "permission_denied rq =
     reply (redirect_back rq) [(''You do not have permission to resolve this issue.'', ''error'')]"

section \<open>Rows written by the requests\<close>

text \<open>The issue \<^verbatim>\<open>input_form\<close> opens, the update \<^verbatim>\<open>resolve_issue\<close> makes to the row of
  an issue, and the baseline reading it adds.\<close>

definition opened_issue :: "world \<Rightarrow> store \<Rightarrow> nat \<Rightarrow> string \<Rightarrow> issue" where
  "opened_issue w s gid d =
     \<lparr>issue_id = next_id (map issue_id (issues s)), issue_greenhouse_id = gid,
      issue_description = d, issue_status = ''Ongoing'',
      issue_created_at = utcnow w 1, issue_resolved_at = None\<rparr>"

definition resolved :: "world \<Rightarrow> nat \<Rightarrow> issue \<Rightarrow> issue" where
  "resolved w iid j =
     (if issue_id j = iid
      then j\<lparr>issue_status := ''Resolved'', issue_resolved_at := Some (utcnow w 0)\<rparr> else j)"

definition baseline_reading :: "nat \<Rightarrow> nat \<Rightarrow> timestamp \<Rightarrow> environmental_data" where
  "baseline_reading i g ts =
     \<lparr>env_id = i, env_greenhouse_id = g,
      env_temperature = NORMAL_TEMP, env_humidity = NORMAL_HUMIDITY,
      env_co2 = NORMAL_CO2, env_light_intensity = NORMAL_LIGHT,
      env_soil_ph = NORMAL_PH, env_soil_moisture = NORMAL_MOISTURE,
      env_timestamp = ts, env_source = ''resolution''\<rparr>"

section \<open>A worked scenario\<close>

text \<open>
  Four greenhouses A to D with keys 1 to 4; an administrator and a worker who is assigned
  to greenhouse B but marked unavailable; ongoing issues at B and C and a resolved one
  at A. Mail is switched off, as in the testing configuration.
\<close>

definition example_greenhouse :: "nat \<Rightarrow> string \<Rightarrow> greenhouse" where
  "example_greenhouse i nm =
     \<lparr>gh_id = i, gh_name = nm, gh_location = ''North'', gh_status = ''normal'',
      gh_issue_description = None\<rparr>"

definition example_admin :: employee where
  "example_admin =
     \<lparr>emp_id = 1, emp_name = ''Admin Officer'', emp_email = ''admin@example.org'',
      emp_password_hash = ''x'', emp_available = True, emp_greenhouse_id = None,
      emp_company_id = ''GT100000'', emp_is_admin = True\<rparr>"

definition example_worker :: employee where
  "example_worker =
     \<lparr>emp_id = 2, emp_name = ''Worker'', emp_email = ''worker@example.org'',
      emp_password_hash = ''y'', emp_available = False, emp_greenhouse_id = Some 2,
      emp_company_id = ''GT100001'', emp_is_admin = False\<rparr>"

definition example_issue :: "nat \<Rightarrow> nat \<Rightarrow> string \<Rightarrow> timestamp \<Rightarrow> timestamp option \<Rightarrow> issue" where
  "example_issue i g st c r =
     \<lparr>issue_id = i, issue_greenhouse_id = g, issue_description = ''Alert'',
      issue_status = st, issue_created_at = c, issue_resolved_at = r\<rparr>"

definition example_store :: store where
  "example_store =
     \<lparr>greenhouses = [example_greenhouse 1 ''A'', example_greenhouse 2 ''B'',
                     example_greenhouse 3 ''C'', example_greenhouse 4 ''D''],
      employees = [example_admin, example_worker],
      issues = [example_issue 1 2 ''Ongoing'' 10 None,
                example_issue 2 3 ''Ongoing'' 20 None,
                example_issue 3 1 ''Resolved'' 5 (Some 8)],
      environmental_data = []\<rparr>"

definition example_world :: world where
  "example_world =
     \<lparr>py_float = map_of [(''19'', Finite 19), (''22'', Finite 22), (''50'', Finite 50),
                          (''70'', Finite 70), (''700'', Finite 700), (''5000'', Finite 5000),
                          (''6.5'', Finite 6.5), (''45'', Finite 45)],
      py_format = (\<lambda>x. if x = Finite 19 then ''19.0'' else if x = Finite 70 then ''70.0'' else ''nan''),
      utcnow = (\<lambda>k. 1000 + k),
      commit_succeeds = True,
      mail = \<lparr>MAIL_ENABLED = False, MAIL_DEFAULT_SENDER = None, MAIL_PASSWORD = None,
              MAIL_SERVER = ''smtp.gmail.com''\<rparr>,
      smtp_delivers = (\<lambda>n. False)\<rparr>"

definition example_post :: "nat \<Rightarrow> (string \<times> string) list \<Rightarrow> request" where
  "example_post employee_id kvs =
     \<lparr>session_employee_id = Some employee_id, request_method = POST,
      form = map_of kvs, referrer = None\<rparr>"

text \<open>A form with temperature 19 and humidity 70 out of range, and one with all six
  values in range.\<close>

definition example_form_alert :: "(string \<times> string) list" where
  "example_form_alert =
     [(''temperature'', ''19''), (''humidity'', ''70''), (''co2'', ''700''),
      (''light_intensity'', ''5000''), (''soil_ph'', ''6.5''), (''soil_moisture'', ''45'')]"

definition example_form_normal :: "(string \<times> string) list" where
  "example_form_normal =
     [(''temperature'', ''22''), (''humidity'', ''50''), (''co2'', ''700''),
      (''light_intensity'', ''5000''), (''soil_ph'', ''6.5''), (''soil_moisture'', ''45'')]"

text \<open>The scenario with a fifth greenhouse E that has an ongoing issue.\<close>

definition example_five :: store where
  "example_five = example_store
     \<lparr>greenhouses := greenhouses example_store @ [example_greenhouse 5 ''E''],
      issues := issues example_store @ [example_issue 4 5 ''Ongoing'' 30 None]\<rparr>"

text \<open>A history from the empty database: the administrator's account is created, then
  a greenhouse, an alerting reading, a normal reading, and the issue is resolved at a
  later time.\<close>

definition example_history :: "action list" where
  "example_history =
     [Staff [example_admin],
      CreateGreenhouse example_world (example_post 1 [(''name'', ''A''), (''location'', ''North'')]),
      Reading example_world (example_post 1 example_form_alert) 1,
      Reading example_world (example_post 1 example_form_normal) 1,
      Resolve (example_world\<lparr>utcnow := (\<lambda>k. 2000 + k)\<rparr>) (example_post 1 []) 1]"

text \<open>The beginning of that history, up to the alerting reading, and the world of a
  request whose clock starts at a given time.\<close>

definition example_opening :: "action list" where
  "example_opening =
     [Staff [example_admin],
      CreateGreenhouse example_world (example_post 1 [(''name'', ''A''), (''location'', ''North'')]),
      Reading example_world (example_post 1 example_form_alert) 1]"

definition example_world_at :: "timestamp \<Rightarrow> world" where
  "example_world_at ts = example_world\<lparr>utcnow := (\<lambda>k. ts + k)\<rparr>"

section \<open>Auxiliary facts\<close>

lemmas check_defs =
  check_temperature_def check_humidity_def check_co2_def
  check_light_intensity_def check_soil_ph_def check_soil_moisture_def

lemmas NORMAL_defs =
  NORMAL_TEMP_def NORMAL_HUMIDITY_def NORMAL_CO2_def
  NORMAL_LIGHT_def NORMAL_PH_def NORMAL_MOISTURE_def

lemmas example_defs =
  example_store_def example_world_def example_post_def example_form_alert_def
  example_form_normal_def example_greenhouse_def example_admin_def example_worker_def
  example_issue_def

lemma read_form_Inr:
  assumes "read_field w rq ''temperature'' = Inr t"
      and "read_field w rq ''humidity'' = Inr h"
      and "read_field w rq ''co2'' = Inr c"
      and "read_field w rq ''light_intensity'' = Inr l"
      and "read_field w rq ''soil_ph'' = Inr p"
      and "read_field w rq ''soil_moisture'' = Inr m"
  shows "read_form w rq = Inr (t, h, c, l, p, m)"
  using assms by (simp add: read_form_def bind_result_def)

lemma parts_empty_iff:
  "issue_description_parts fmt t h c l p m = [] \<longleftrightarrow>
     check_temperature t \<and> check_humidity h \<and> check_co2 c \<and>
     check_light_intensity l \<and> check_soil_ph p \<and> check_soil_moisture m"
  by (simp add: issue_description_parts_def Let_def)

lemma snd_input_form_commit:
  assumes "login_required s rq = Inr e"
      and "request_method rq = POST"
      and "get_greenhouse s gid = Some gh"
      and "read_form w rq = Inr vals"
      and "commit_succeeds w"
  shows "snd (input_form w s rq gid) = fst (stage_reading w s gh gid vals)"
  using assms by (simp add: input_form_def split: prod.splits)

text \<open>The scenario: the administrator is logged in, greenhouse B exists, and the alert
  form carries six numbers of which the first two are out of range.\<close>

lemma example_login: "login_required example_store (example_post 1 kv) = Inr example_admin"
  by (simp add: login_required_def load_logged_in_user_def get_employee_def example_defs)

lemma example_get_greenhouse:
  "get_greenhouse example_store 2 = Some (example_greenhouse 2 ''B'')"
  by (simp add: get_greenhouse_def example_defs)

lemma example_fields:
  "read_field example_world (example_post 1 example_form_alert) ''temperature'' = Inr (Finite 19)"
  "read_field example_world (example_post 1 example_form_alert) ''humidity'' = Inr (Finite 70)"
  "read_field example_world (example_post 1 example_form_alert) ''co2'' = Inr (Finite 700)"
  "read_field example_world (example_post 1 example_form_alert) ''light_intensity'' = Inr (Finite 5000)"
  "read_field example_world (example_post 1 example_form_alert) ''soil_ph'' = Inr (Finite 6.5)"
  "read_field example_world (example_post 1 example_form_alert) ''soil_moisture'' = Inr (Finite 45)"
  by (simp_all add: read_field_def example_defs)

lemma example_post_world:
  "request_method (example_post i kv) = POST" "commit_succeeds example_world"
  by (simp_all add: example_defs)

lemma example_parts:
  "issue_description_parts (py_format example_world) (Finite 19) (Finite 70)
     (Finite 700) (Finite 5000) (Finite 6.5) (Finite 45) =
   [''Temperature 19.0'' @ degree @ ''C is out of range (20-25'' @ degree @ ''C).'',
    ''Humidity 70.0% is out of range (40-60%).'']"
  by (simp add: issue_description_parts_def check_defs Let_def example_world_def)

lemma example_values:
  "environmental_data example_store = []"
  "map issue_id (issues example_store) = [1, 2, 3]"
  "utcnow example_world 0 = 1000" "utcnow example_world 1 = 1001"
  "gh_name (example_greenhouse 2 ''B'') = ''B''"
  "gh_location (example_greenhouse 2 ''B'') = ''North''"
  by (simp_all add: example_defs)

lemma find_map_update:
  assumes "find (\<lambda>j. issue_id j = i) xs = Some x"
  shows "find (\<lambda>j. issue_id j = i)
           (map (\<lambda>j. if issue_id j = i then j\<lparr>issue_status := st, issue_resolved_at := r\<rparr> else j) xs)
         = Some (x\<lparr>issue_status := st, issue_resolved_at := r\<rparr>)"
  using assms by (induction xs) (auto split: if_splits)

lemma get_issue_id: "get_issue s i = Some x \<Longrightarrow> issue_id x = i"
  by (auto simp: get_issue_def find_Some_iff)

lemma snd_resolve_commit:
  assumes "request_method rq = POST"
      and "login_required s rq = Inr e"
      and "get_issue s iid = Some i"
      and "can_resolve s e i"
      and "issue_status i = ''Ongoing''"
      and "commit_succeeds w"
  shows "snd (resolve_issue w s rq iid) = stage_resolution w s i"
  using assms by (simp add: resolve_issue_def)

lemma example_login_worker:
  "login_required example_store (example_post 2 kv) = Inr example_worker"
  by (simp add: login_required_def load_logged_in_user_def get_employee_def example_defs)

lemma example_get_issue:
  "get_issue example_store 1 = Some (example_issue 1 2 ''Ongoing'' 10 None)"
  "get_issue example_store 2 = Some (example_issue 2 3 ''Ongoing'' 20 None)"
  "get_issue example_store 3 = Some (example_issue 3 1 ''Resolved'' 5 (Some 8))"
  by (simp_all add: get_issue_def example_defs)

lemma example_can_resolve:
  "can_resolve example_store example_admin j"
  by (simp add: can_resolve_def example_admin_def)

text \<open>Effects of the requests on the tables.\<close>

lemma run_induct:
  assumes "P empty_store" and "\<And>s a. P s \<Longrightarrow> P (step s a)"
  shows "P (run acts)"
  unfolding run_def by (induction acts rule: rev_induct) (simp_all add: assms)

lemma stage_reading_store:
  "greenhouses (fst (stage_reading w s gh gid vals)) = greenhouses s"
  "employees (fst (stage_reading w s gh gid vals)) = employees s"
  "\<exists>row. env_source row = ''manual'' \<and>
     environmental_data (fst (stage_reading w s gh gid vals)) = environmental_data s @ [row]"
  "issues (fst (stage_reading w s gh gid vals)) = issues s \<or>
     (\<exists>d. issues (fst (stage_reading w s gh gid vals)) = issues s @ [opened_issue w s gid d])"
  by (auto simp: stage_reading_def Let_def opened_issue_def split: prod.splits)

lemma input_form_store_cases:
  "snd (input_form w s rq gid) = s \<or>
   (\<exists>gh vals. get_greenhouse s gid = Some gh
        \<and> snd (input_form w s rq gid) = fst (stage_reading w s gh gid vals))"
proof (cases "snd (input_form w s rq gid) = s")
  case False
  then obtain gh vals where "get_greenhouse s gid = Some gh"
    and "snd (input_form w s rq gid) = fst (stage_reading w s gh gid vals)"
    by (auto simp: input_form_def case_prod_beta
          split: sum.splits option.splits py_error.splits if_splits)
  then show ?thesis by blast
qed simp

lemma resolve_issue_store_cases:
  "snd (resolve_issue w s rq iid) = s \<or>
   (\<exists>i. get_issue s iid = Some i \<and> snd (resolve_issue w s rq iid) = stage_resolution w s i)"
  by (auto simp: resolve_issue_def split: sum.splits option.splits)

lemma create_greenhouse_store_cases:
  "snd (create_greenhouse w s rq) = s \<or>
   (\<exists>gh. gh_id gh = next_id (map gh_id (greenhouses s))
        \<and> snd (create_greenhouse w s rq) = s\<lparr>greenhouses := greenhouses s @ [gh]\<rparr>)"
proof (cases "snd (create_greenhouse w s rq) = s")
  case False
  then obtain name location where
    "snd (create_greenhouse w s rq) =
       s\<lparr>greenhouses := greenhouses s @
           [\<lparr>gh_id = next_id (map gh_id (greenhouses s)), gh_name = name,
             gh_location = location, gh_status = ''normal'', gh_issue_description = None\<rparr>]\<rparr>"
    by (auto simp: create_greenhouse_def split: sum.splits option.splits if_splits)
  then show ?thesis
    by (intro disjI2 exI [where x = "\<lparr>gh_id = next_id (map gh_id (greenhouses s)), gh_name = name,
             gh_location = location, gh_status = ''normal'', gh_issue_description = None\<rparr>"]) simp
qed simp

lemma input_form_issues:
  "issues (snd (input_form w s rq gid)) = issues s \<or>
   (\<exists>d. get_greenhouse s gid \<noteq> None
        \<and> issues (snd (input_form w s rq gid)) = issues s @ [opened_issue w s gid d])"
  using input_form_store_cases [of w s rq gid] stage_reading_store(4) [of w s _ gid]
  by (metis option.distinct(1))

lemma input_form_tables:
  "greenhouses (snd (input_form w s rq gid)) = greenhouses s"
  "employees (snd (input_form w s rq gid)) = employees s"
  using input_form_store_cases [of w s rq gid]
  by (auto simp: stage_reading_store)

lemma input_form_readings:
  "environmental_data (snd (input_form w s rq gid)) = environmental_data s \<or>
   (\<exists>row. env_source row = ''manual'' \<and>
      environmental_data (snd (input_form w s rq gid)) = environmental_data s @ [row])"
  using input_form_store_cases [of w s rq gid] stage_reading_store(3) [of w s _ gid]
  by metis

lemma stage_resolution_store:
  "greenhouses (stage_resolution w s i) = greenhouses s"
  "employees (stage_resolution w s i) = employees s"
  "environmental_data (stage_resolution w s i) =
     environmental_data s @
       [baseline_reading (next_id (map env_id (environmental_data s))) (issue_greenhouse_id i) (utcnow w 1)]"
  "issues (stage_resolution w s i) = map (resolved w (issue_id i)) (issues s)"
  by (simp_all add: stage_resolution_def Let_def resolved_def [abs_def] baseline_reading_def)

lemma resolve_issue_issues:
  "issues (snd (resolve_issue w s rq iid)) = issues s \<or>
   issues (snd (resolve_issue w s rq iid)) = map (resolved w iid) (issues s)"
  using resolve_issue_store_cases [of w s rq iid]
  by (auto simp: stage_resolution_store dest: get_issue_id)

lemma resolve_issue_tables:
  "greenhouses (snd (resolve_issue w s rq iid)) = greenhouses s"
  "employees (snd (resolve_issue w s rq iid)) = employees s"
  using resolve_issue_store_cases [of w s rq iid]
  by (auto simp: stage_resolution_store)

lemma resolve_issue_readings:
  "environmental_data (snd (resolve_issue w s rq iid)) = environmental_data s \<or>
   (\<exists>k g ts. environmental_data (snd (resolve_issue w s rq iid)) =
      environmental_data s @ [baseline_reading k g ts])"
  using resolve_issue_store_cases [of w s rq iid] stage_resolution_store(3) [of w s]
  by metis

lemma create_greenhouse_tables:
  "issues (snd (create_greenhouse w s rq)) = issues s"
  "environmental_data (snd (create_greenhouse w s rq)) = environmental_data s"
  using create_greenhouse_store_cases [of w s rq] by auto

lemma baseline_no_violations: "reading_violations fmt (baseline_reading k g ts) = []"
  by (simp add: reading_violations_def baseline_reading_def issue_description_parts_def
        Let_def check_defs NORMAL_defs)

text \<open>Invariants of the histories.\<close>

lemma resolved_consistent:
  "(issue_resolved_at j \<noteq> None) = (issue_status j = ''Resolved'') \<Longrightarrow>
   (issue_resolved_at (resolved w iid j) \<noteq> None) = (issue_status (resolved w iid j) = ''Resolved'')"
  by (simp add: resolved_def)

lemma map_resolved_consistent:
  "list_all (\<lambda>j. (issue_resolved_at j \<noteq> None) = (issue_status j = ''Resolved'')) xs \<Longrightarrow>
   list_all (\<lambda>j. (issue_resolved_at j \<noteq> None) = (issue_status j = ''Resolved''))
     (map (resolved w iid) xs)"
  by (induction xs) (simp_all add: resolved_def)

lemma step_consistent:
  assumes "list_all (\<lambda>j. (issue_resolved_at j \<noteq> None) = (issue_status j = ''Resolved'')) (issues s)"
  shows "list_all (\<lambda>j. (issue_resolved_at j \<noteq> None) = (issue_status j = ''Resolved''))
           (issues (step s a))"
proof (cases a)
  case (Reading w rq gid)
  then show ?thesis
    using assms input_form_issues [of w s rq gid] by (auto simp: opened_issue_def)
next
  case (Resolve w rq iid)
  then show ?thesis
    using assms resolve_issue_issues [of w s rq iid] map_resolved_consistent [of "issues s" w iid]
    by auto
next
  case (CreateGreenhouse w rq)
  then show ?thesis using assms by (simp add: create_greenhouse_tables)
next
  case (Staff emps)
  then show ?thesis using assms by simp
qed

lemma run_consistent:
  "list_all (\<lambda>j. (issue_resolved_at j \<noteq> None) = (issue_status j = ''Resolved'')) (issues (run acts))"
  by (rule run_induct) (simp add: empty_store_def, rule step_consistent)

lemma step_resolution_rows:
  assumes "list_all (\<lambda>r. reading_violations fmt r = [])
             (filter (\<lambda>r. env_source r = ''resolution'') (environmental_data s))"
  shows "list_all (\<lambda>r. reading_violations fmt r = [])
             (filter (\<lambda>r. env_source r = ''resolution'') (environmental_data (step s a)))"
proof (cases a)
  case (Reading w rq gid)
  then show ?thesis
    using assms input_form_readings [of w s rq gid] by auto
next
  case (Resolve w rq iid)
  then show ?thesis
    using assms resolve_issue_readings [of w s rq iid]
    by (auto simp: baseline_no_violations)
next
  case (CreateGreenhouse w rq)
  then show ?thesis using assms by (simp add: create_greenhouse_tables)
next
  case (Staff emps)
  then show ?thesis using assms by simp
qed

lemma find_append_not_None: "find P xs \<noteq> None \<Longrightarrow> find P (xs @ ys) \<noteq> None"
  by (induction xs) auto

lemma next_id_pos: "0 < next_id ids"
  by (simp add: next_id_def)

lemma step_foreign_keys:
  assumes "list_all (\<lambda>g. 0 < gh_id g) (greenhouses s)
           \<and> list_all (\<lambda>j. find (\<lambda>g. gh_id g = issue_greenhouse_id j) (greenhouses s) \<noteq> None) (issues s)"
  shows "list_all (\<lambda>g. 0 < gh_id g) (greenhouses (step s a))
           \<and> list_all (\<lambda>j. find (\<lambda>g. gh_id g = issue_greenhouse_id j) (greenhouses (step s a)) \<noteq> None)
                (issues (step s a))"
proof (cases a)
  case (Reading w rq gid)
  then show ?thesis
    using assms input_form_issues [of w s rq gid]
    by (auto simp: input_form_tables opened_issue_def get_greenhouse_def)
next
  case (Resolve w rq iid)
  then show ?thesis
    using assms resolve_issue_issues [of w s rq iid]
    by (auto simp: resolve_issue_tables list_all_iff resolved_def)
next
  case (CreateGreenhouse w rq)
  from create_greenhouse_store_cases [of w s rq] show ?thesis
  proof
    assume "snd (create_greenhouse w s rq) = s"
    with CreateGreenhouse assms show ?thesis by simp
  next
    assume "\<exists>gh. gh_id gh = next_id (map gh_id (greenhouses s))
        \<and> snd (create_greenhouse w s rq) = s\<lparr>greenhouses := greenhouses s @ [gh]\<rparr>"
    then obtain gh where id: "gh_id gh = next_id (map gh_id (greenhouses s))"
      and c: "snd (create_greenhouse w s rq) = s\<lparr>greenhouses := greenhouses s @ [gh]\<rparr>"
      by blast
    have gh: "0 < gh_id gh"
      unfolding id by (rule next_id_pos)
    have s': "step s a = s\<lparr>greenhouses := greenhouses s @ [gh]\<rparr>"
      using CreateGreenhouse c by simp
    have "find (\<lambda>g. gh_id g = issue_greenhouse_id j) (greenhouses s @ [gh]) \<noteq> None"
      if "j \<in> set (issues s)" for j
      using assms that by (intro find_append_not_None) (simp add: list_all_iff)
    with assms gh show ?thesis
      unfolding s' by (simp add: list_all_iff)
  qed
next
  case (Staff emps)
  then show ?thesis using assms by simp
qed

lemma run_foreign_keys:
  "list_all (\<lambda>j. get_greenhouse (run acts) (issue_greenhouse_id j) \<noteq> None
               \<and> 0 < issue_greenhouse_id j) (issues (run acts))"
proof -
  have "list_all (\<lambda>g. 0 < gh_id g) (greenhouses (run acts))
        \<and> list_all (\<lambda>j. find (\<lambda>g. gh_id g = issue_greenhouse_id j) (greenhouses (run acts)) \<noteq> None)
            (issues (run acts))"
    by (rule run_induct) (simp add: empty_store_def, rule step_foreign_keys)
  then have g: "\<forall>g \<in> set (greenhouses (run acts)). 0 < gh_id g"
    and f: "\<forall>j \<in> set (issues (run acts)).
              find (\<lambda>g. gh_id g = issue_greenhouse_id j) (greenhouses (run acts)) \<noteq> None"
    by (simp_all add: list_all_iff)
  have "0 < issue_greenhouse_id j" if "j \<in> set (issues (run acts))" for j
  proof -
    from f that obtain gh where
      "find (\<lambda>g. gh_id g = issue_greenhouse_id j) (greenhouses (run acts)) = Some gh"
      by auto
    then have "gh \<in> set (greenhouses (run acts))" "gh_id gh = issue_greenhouse_id j"
      by (auto simp: find_Some_iff)
    with g show ?thesis by auto
  qed
  with f show ?thesis
    by (simp add: list_all_iff get_greenhouse_def)
qed


text \<open>The dashboard order.\<close>

lemma has_ongoing_display:
  "list_ex (\<lambda>issue. issue_status issue = ''Ongoing'') (gh_issues s gh) = has_ongoing_issue s gh"
  by (auto simp: gh_issues_def has_ongoing_issue_def list_ex_iff)

lemma display_data_greenhouses:
  "map dd_greenhouse (greenhouse_display_data s) = all_greenhouses s"
  by (simp add: greenhouse_display_data_def Let_def comp_def)

lemma display_data_flag:
  "d \<in> set (greenhouse_display_data s) \<Longrightarrow>
     dd_has_ongoing_issue d = has_ongoing_issue s (dd_greenhouse d)"
  by (auto simp: greenhouse_display_data_def Let_def has_ongoing_display)

lemma sorted_all_greenhouses: "sorted (map gh_id (all_greenhouses s))"
  by (simp add: all_greenhouses_def)

lemma sort_by_flag_then_id:
  fixes D :: "display_data list"
  assumes "sorted (map (\<lambda>d. gh_id (dd_greenhouse d)) D)"
  shows "sort_key sort_key_fn D =
           filter dd_has_ongoing_issue D @ filter (\<lambda>d. \<not> dd_has_ongoing_issue d) D"
proof (rule properties_for_sort_key)
  show "mset (filter dd_has_ongoing_issue D @ filter (\<lambda>d. \<not> dd_has_ongoing_issue d) D) = mset D"
    by simp
next
  fix k
  show "filter (\<lambda>x. sort_key_fn k = sort_key_fn x)
          (filter dd_has_ongoing_issue D @ filter (\<lambda>d. \<not> dd_has_ongoing_issue d) D) =
        filter (\<lambda>x. sort_key_fn k = sort_key_fn x) D"
  proof (cases "dd_has_ongoing_issue k")
    case True
    have "filter (\<lambda>x. sort_key_fn k = sort_key_fn x) (filter (\<lambda>d. \<not> dd_has_ongoing_issue d) D) = []"
      using True by (auto simp: filter_empty_conv sort_key_fn_def)
    moreover have "filter (\<lambda>x. sort_key_fn k = sort_key_fn x) (filter dd_has_ongoing_issue D) =
          filter (\<lambda>x. sort_key_fn k = sort_key_fn x) D"
      using True by (auto simp: sort_key_fn_def intro!: filter_cong split: if_splits)
    ultimately show ?thesis by simp
  next
    case False
    have "filter (\<lambda>x. sort_key_fn k = sort_key_fn x) (filter dd_has_ongoing_issue D) = []"
      using False by (auto simp: filter_empty_conv sort_key_fn_def)
    moreover have "filter (\<lambda>x. sort_key_fn k = sort_key_fn x) (filter (\<lambda>d. \<not> dd_has_ongoing_issue d) D) =
          filter (\<lambda>x. sort_key_fn k = sort_key_fn x) D"
      using False by (auto simp: sort_key_fn_def intro!: filter_cong split: if_splits)
    ultimately show ?thesis by simp
  qed
next
  have a: "sorted (map sort_key_fn (filter dd_has_ongoing_issue D))"
    using assms by (induction D) (auto simp: sort_key_fn_def)
  have b: "sorted (map sort_key_fn (filter (\<lambda>d. \<not> dd_has_ongoing_issue d) D))"
    using assms by (induction D) (auto simp: sort_key_fn_def)
  show "sorted (map sort_key_fn
          (filter dd_has_ongoing_issue D @ filter (\<lambda>d. \<not> dd_has_ongoing_issue d) D))"
    using a b by (auto simp: sorted_append sort_key_fn_def)
qed

lemma sorted_display_greenhouses:
  "map dd_greenhouse (sorted_greenhouses_data s) =
     filter (has_ongoing_issue s) (all_greenhouses s)
       @ filter (\<lambda>gh. \<not> has_ongoing_issue s gh) (all_greenhouses s)"
proof -
  let ?D = "greenhouse_display_data s"
  have srt: "sorted (map (\<lambda>d. gh_id (dd_greenhouse d)) ?D)"
    using sorted_all_greenhouses [of s]
    by (simp add: display_data_greenhouses [symmetric] comp_def)
  have 1: "map dd_greenhouse (filter dd_has_ongoing_issue ?D) =
           filter (has_ongoing_issue s) (map dd_greenhouse ?D)"
    unfolding filter_map comp_def
    by (rule arg_cong [where f = "map dd_greenhouse"], rule filter_cong)
       (simp_all add: display_data_flag)
  have 2: "map dd_greenhouse (filter (\<lambda>d. \<not> dd_has_ongoing_issue d) ?D) =
           filter (\<lambda>gh. \<not> has_ongoing_issue s gh) (map dd_greenhouse ?D)"
    unfolding filter_map comp_def
    by (rule arg_cong [where f = "map dd_greenhouse"], rule filter_cong)
       (simp_all add: display_data_flag)
  show ?thesis
    unfolding sorted_greenhouses_data_def sort_by_flag_then_id [OF srt]
    by (simp add: 1 2 display_data_greenhouses)
qed

text \<open>Further facts about the scenario and about a committed reading.\<close>

lemma input_form_commit:
  assumes "login_required s rq = Inr e"
      and "request_method rq = POST"
      and "get_greenhouse s gid = Some gh"
      and "read_form w rq = Inr vals"
      and "commit_succeeds w"
  shows "input_form w s rq gid =
           (send_notifications w (fst (snd (stage_reading w s gh gid vals)))
              \<lparr>response = Redirect (''/input/'' @ str_nat gid),
               flashes = [(''Data recorded successfully!'', ''success'')],
               logs = snd (snd (stage_reading w s gh gid vals)), mails = []\<rparr>,
            fst (stage_reading w s gh gid vals))"
  using assms by (simp add: input_form_def reply_def case_prod_beta)

lemma example_no_recipients:
  "recipient_emails example_store (example_greenhouse 2 ''B'') = []"
  by (simp add: recipient_emails_def gh_employees_def example_defs)

lemma example_run:
  "run example_history =
     \<lparr>greenhouses = [example_greenhouse 1 ''A''],
      employees = [example_admin],
      issues =
        [\<lparr>issue_id = 1, issue_greenhouse_id = 1,
          issue_description =
            ''Alert for Greenhouse '' @ apostrophe @ ''A'' @ apostrophe @ '' (North):'' @ newline
              @ ''- Temperature 19.0'' @ degree @ ''C is out of range (20-25'' @ degree @ ''C).''
              @ newline @ ''- Humidity 70.0% is out of range (40-60%).'',
          issue_status = ''Resolved'', issue_created_at = 1001, issue_resolved_at = Some 2000\<rparr>],
      environmental_data =
        [\<lparr>env_id = 1, env_greenhouse_id = 1, env_temperature = Finite 19,
          env_humidity = Finite 70, env_co2 = Finite 700, env_light_intensity = Finite 5000,
          env_soil_ph = Finite 6.5, env_soil_moisture = Finite 45, env_timestamp = 1000,
          env_source = ''manual''\<rparr>,
         \<lparr>env_id = 2, env_greenhouse_id = 1, env_temperature = Finite 22, 
          env_humidity = Finite 50, env_co2 = Finite 700, env_light_intensity = Finite 5000,
          env_soil_ph = Finite 6.5, env_soil_moisture = Finite 45, env_timestamp = 1000,
          env_source = ''manual''\<rparr>,
         baseline_reading 3 1 2001]\<rparr>"
  by (simp add: run_def example_history_def input_form_def resolve_issue_def create_greenhouse_def
        login_required_def load_logged_in_user_def get_employee_def get_issue_def can_resolve_def
        get_greenhouse_def read_form_def read_field_def bind_result_def stage_reading_def
        stage_resolution_def full_issue_description_def next_id_def empty_store_def
        issue_description_parts_def check_defs recipient_emails_def gh_employees_def
        baseline_reading_def reply_def Let_def str_nat.simps example_defs)

text \<open>The clock over a history.\<close>

lemma run_snoc: "run (acts @ [a]) = step (run acts) a"
  by (simp add: run_def)

lemma clock_monotone_snoc:
  assumes "clock_monotone (acts @ [a])"
  shows "clock_monotone acts"
    and "sorted (clock_readings a)"
    and "\<forall>x \<in> set (concat (map clock_readings acts)). \<forall>y \<in> set (clock_readings a). x \<le> y"
  using assms by (auto simp: clock_monotone_def sorted_append)

lemma history_created_at:
  "clock_monotone acts \<Longrightarrow>
   \<forall>j \<in> set (issues (run acts)).
     issue_created_at j \<in> set (concat (map clock_readings acts))
     \<and> (\<forall>t. issue_resolved_at j = Some t \<longrightarrow> issue_created_at j \<le> t)"
proof (induction acts rule: rev_induct)
  case Nil
  then show ?case by (simp add: run_def empty_store_def)
next
  case (snoc a acts)
  note mono = clock_monotone_snoc [OF snoc.prems]
  note IH = snoc.IH [OF mono(1)]
  show ?case
  proof (cases a)
    case (Reading w rq gid)
    from input_form_issues [of w "run acts" rq gid] show ?thesis
    proof
      assume "issues (snd (input_form w (run acts) rq gid)) = issues (run acts)"
      with IH Reading show ?thesis by (simp add: run_snoc)
    next
      assume "\<exists>d. get_greenhouse (run acts) gid \<noteq> None \<and>
        issues (snd (input_form w (run acts) rq gid)) =
          issues (run acts) @ [opened_issue w (run acts) gid d]"
      then obtain d where
        "issues (snd (input_form w (run acts) rq gid)) =
          issues (run acts) @ [opened_issue w (run acts) gid d]"
        by blast
      with IH Reading show ?thesis
        by (auto simp: run_snoc opened_issue_def)
    qed
  next
    case (Resolve w rq iid)
    from IH mono(3) Resolve
    have le: "\<forall>j \<in> set (issues (run acts)). issue_created_at j \<le> utcnow w 0"
      by auto
    from resolve_issue_issues [of w "run acts" rq iid] show ?thesis
    proof
      assume "issues (snd (resolve_issue w (run acts) rq iid)) = issues (run acts)"
      with IH Resolve show ?thesis by (simp add: run_snoc)
    next
      assume "issues (snd (resolve_issue w (run acts) rq iid)) =
                map (resolved w iid) (issues (run acts))"
      with IH le Resolve show ?thesis
        by (auto simp: run_snoc resolved_def)
    qed
  next
    case (CreateGreenhouse w rq)
    with IH show ?thesis by (simp add: run_snoc create_greenhouse_tables)
  next
    case (Staff emps)
    with IH show ?thesis by (simp add: run_snoc)
  qed
qed

lemma get_issue_mem: "get_issue s i = Some x \<Longrightarrow> x \<in> set (issues s)"
  by (auto simp: get_issue_def find_Some_iff)

lemma history_resolve_clock:
  assumes "clock_monotone (acts @ [Resolve w rq iid])"
      and "get_issue (run acts) iid = Some i"
  shows "issue_created_at i \<le> utcnow w 0"
proof -
  note mono = clock_monotone_snoc [OF assms(1)]
  have "i \<in> set (issues (run acts))"
    using assms(2) by (rule get_issue_mem)
  with history_created_at [OF mono(1)]
  have "issue_created_at i \<in> set (concat (map clock_readings acts))"
    by blast
  moreover have "utcnow w 0 \<in> set (clock_readings (Resolve w rq iid))"
    by simp
  ultimately show ?thesis
    using mono(3) by blast
qed

lemma example_opening_run:
  "run example_opening =
     \<lparr>greenhouses = [example_greenhouse 1 ''A''],
      employees = [example_admin],
      issues =
        [\<lparr>issue_id = 1, issue_greenhouse_id = 1,
          issue_description =
            ''Alert for Greenhouse '' @ apostrophe @ ''A'' @ apostrophe @ '' (North):'' @ newline
              @ ''- Temperature 19.0'' @ degree @ ''C is out of range (20-25'' @ degree @ ''C).''
              @ newline @ ''- Humidity 70.0% is out of range (40-60%).'',
          issue_status = ''Ongoing'', issue_created_at = 1001, issue_resolved_at = None\<rparr>],
      environmental_data =
        [\<lparr>env_id = 1, env_greenhouse_id = 1, env_temperature = Finite 19,
          env_humidity = Finite 70, env_co2 = Finite 700, env_light_intensity = Finite 5000,
          env_soil_ph = Finite 6.5, env_soil_moisture = Finite 45, env_timestamp = 1000,
          env_source = ''manual''\<rparr>]\<rparr>"
  by (simp add: run_def example_opening_def input_form_def create_greenhouse_def
        login_required_def load_logged_in_user_def get_employee_def
        get_greenhouse_def read_form_def read_field_def bind_result_def stage_reading_def
        full_issue_description_def next_id_def empty_store_def
        issue_description_parts_def check_defs recipient_emails_def gh_employees_def
        reply_def Let_def str_nat.simps example_defs)

lemma example_opening_facts:
  "login_required (run example_opening) (example_post 1 kv) = Inr example_admin"
  "get_issue (run example_opening) 1 = Some (hd (issues (run example_opening)))"
  "issue_status (hd (issues (run example_opening))) = ''Ongoing''"
  "issue_created_at (hd (issues (run example_opening))) = 1001"
  "issue_greenhouse_id (hd (issues (run example_opening))) = 1"
  "map env_id (environmental_data (run example_opening)) = [1]"
  "can_resolve (run example_opening) example_admin j"
  by (simp_all add: example_opening_run login_required_def load_logged_in_user_def
        get_employee_def get_issue_def can_resolve_def example_post_def example_admin_def)

lemma example_clock:
  "commit_succeeds (example_world_at ts)"
  "utcnow (example_world_at ts) k = ts + k"
  "clock_monotone (example_opening @ [Resolve (example_world_at 2000) rq iid])"
  by (simp_all add: example_world_at_def example_world_def clock_monotone_def
        example_opening_def)

section \<open>Properties of the range validators\<close>

text \<open>
  Claim C2. Each of the six validators returns true exactly when the value lies within
  its fixed bounds, both endpoints included: temperature in [20,25], humidity in [40,60],
  CO2 in [400,1000], light intensity in [1000,10000], soil pH in [6,7], soil moisture in
  [30,60]. The infinities and NaN, which lie in no interval, are rejected by all six.
  Temperature 20.0 and 25.0 pass, 19.99 and 25.01 fail.
\<close>

theorem validators_inclusive_bounds:
  "(check_temperature (Finite r) \<longleftrightarrow> r \<in> {20..25})
 \<and> (check_humidity (Finite r) \<longleftrightarrow> r \<in> {40..60})
 \<and> (check_co2 (Finite r) \<longleftrightarrow> r \<in> {400..1000})
 \<and> (check_light_intensity (Finite r) \<longleftrightarrow> r \<in> {1000..10000})
 \<and> (check_soil_ph (Finite r) \<longleftrightarrow> r \<in> {6.0..7.0})
 \<and> (check_soil_moisture (Finite r) \<longleftrightarrow> r \<in> {30..60})
 \<and> list_all (\<lambda>check. \<not> check PosInf \<and> \<not> check NegInf \<and> \<not> check NaN)
      [check_temperature, check_humidity, check_co2,
       check_light_intensity, check_soil_ph, check_soil_moisture]
 \<and> check_temperature (Finite 20.0) \<and> check_temperature (Finite 25.0)
 \<and> \<not> check_temperature (Finite 19.99) \<and> \<not> check_temperature (Finite 25.01)"
  by (simp add: check_defs)

section \<open>Properties of recording a reading\<close>

text \<open>
  Claim C1. A reading is submitted (\<^verbatim>\<open>POST\<close>) by a logged-in employee for an existing
  greenhouse, its six fields are numbers and the commit goes through. Then the reading
  is appended to the readings with source \<^verbatim>\<open>manual\<close> whether or not a metric is out of
  range; when all six validators pass the issue table is unchanged; when at least one
  fails exactly one issue is appended, with status \<^verbatim>\<open>Ongoing\<close>, no \<open>resolved_at\<close>, and as
  description the violation strings joined by line breaks behind a heading that names
  the greenhouse and its location. The other tables are unchanged.
\<close>

theorem reading_persisted_issue_iff_violation:
  assumes "login_required s rq = Inr e"
      and "request_method rq = POST"
      and "get_greenhouse s gid = Some gh"
      and "read_field w rq ''temperature'' = Inr t"
      and "read_field w rq ''humidity'' = Inr h"
      and "read_field w rq ''co2'' = Inr c"
      and "read_field w rq ''light_intensity'' = Inr l"
      and "read_field w rq ''soil_ph'' = Inr p"
      and "read_field w rq ''soil_moisture'' = Inr m"
      and "commit_succeeds w"
  shows "environmental_data (snd (input_form w s rq gid)) =
           environmental_data s @
             [\<lparr>env_id = next_id (map env_id (environmental_data s)), env_greenhouse_id = gid,
               env_temperature = t, env_humidity = h, env_co2 = c, env_light_intensity = l,
               env_soil_ph = p, env_soil_moisture = m,
               env_timestamp = utcnow w 0, env_source = ''manual''\<rparr>]
       \<and> issues (snd (input_form w s rq gid)) =
           (if check_temperature t \<and> check_humidity h \<and> check_co2 c \<and>
               check_light_intensity l \<and> check_soil_ph p \<and> check_soil_moisture m
            then issues s
            else issues s @
             [\<lparr>issue_id = next_id (map issue_id (issues s)), issue_greenhouse_id = gid,
               issue_description =
                 ''Alert for Greenhouse '' @ apostrophe @ gh_name gh @ apostrophe
                   @ '' ('' @ gh_location gh @ ''):'' @ newline @ ''- ''
                   @ join (newline @ ''- '')
                       (issue_description_parts (py_format w) t h c l p m),
               issue_status = ''Ongoing'', issue_created_at = utcnow w 1,
               issue_resolved_at = None\<rparr>])
       \<and> greenhouses (snd (input_form w s rq gid)) = greenhouses s
       \<and> employees (snd (input_form w s rq gid)) = employees s"
proof -
  have rf: "read_form w rq = Inr (t, h, c, l, p, m)"
    using assms(4-9) by (rule read_form_Inr)
  have s': "snd (input_form w s rq gid) = fst (stage_reading w s gh gid (t, h, c, l, p, m))"
    using assms(1-3) rf assms(10) by (rule snd_input_form_commit)
  have ok: "(check_temperature t \<and> check_humidity h \<and> check_co2 c \<and>
               check_light_intensity l \<and> check_soil_ph p \<and> check_soil_moisture m)
             = (issue_description_parts (py_format w) t h c l p m = [])"
    by (simp only: parts_empty_iff)
  show ?thesis
    unfolding s' ok
    by (simp add: stage_reading_def Let_def full_issue_description_def)
qed

text \<open>In the scenario, the alert form for greenhouse B stores the reading and opens
  issue 4 with the two violation strings.\<close>

theorem reading_persisted_issue_iff_violation_witness:
  "environmental_data
     (snd (input_form example_world example_store (example_post 1 example_form_alert) 2)) =
     [\<lparr>env_id = 1, env_greenhouse_id = 2, env_temperature = Finite 19, env_humidity = Finite 70,
       env_co2 = Finite 700, env_light_intensity = Finite 5000, env_soil_ph = Finite 6.5,
       env_soil_moisture = Finite 45, env_timestamp = 1000, env_source = ''manual''\<rparr>]
   \<and> issues (snd (input_form example_world example_store (example_post 1 example_form_alert) 2)) =
      issues example_store @
        [\<lparr>issue_id = 4, issue_greenhouse_id = 2,
          issue_description =
            ''Alert for Greenhouse '' @ apostrophe @ ''B'' @ apostrophe @ '' (North):'' @ newline
              @ ''- Temperature 19.0'' @ degree @ ''C is out of range (20-25'' @ degree @ ''C).''
              @ newline @ ''- Humidity 70.0% is out of range (40-60%).'',
          issue_status = ''Ongoing'', issue_created_at = 1001, issue_resolved_at = None\<rparr>]"
proof -
  have c: "\<not> check_temperature (Finite 19)"
    by (simp add: check_defs)
  show ?thesis
    using reading_persisted_issue_iff_violation
      [OF example_login example_post_world(1) example_get_greenhouse example_fields
          example_post_world(2)]
    by (simp add: example_parts [simplified] c example_values [simplified] next_id_def)
qed

text \<open>
  Claim C3. The violation strings of a reading are the messages of the failing metrics,
  one each, in the fixed order temperature, humidity, CO2, light intensity, soil pH,
  soil moisture; each message carries the formatted value and the fixed bounds. Their
  number is the number of failing validators. A reading with temperature 19 and
  humidity 70, the other four in range, yields the temperature message followed by the
  humidity message and nothing else.
\<close>

theorem violation_strings_in_metric_order:
  "issue_description_parts fmt t h c l p m =
     map snd (filter (\<lambda>(ok, msg). \<not> ok)
       [(check_temperature t,
           ''Temperature '' @ fmt t @ degree @ ''C is out of range (20-25'' @ degree @ ''C).''),
        (check_humidity h, ''Humidity '' @ fmt h @ ''% is out of range (40-60%).''),
        (check_co2 c, ''CO2 '' @ fmt c @ '' ppm is out of range (400-1000 ppm).''),
        (check_light_intensity l,
           ''Light Intensity '' @ fmt l @ '' lux is out of range (1000-10000 lux).''),
        (check_soil_ph p, ''Soil pH '' @ fmt p @ '' is out of range (6.0-7.0).''),
        (check_soil_moisture m, ''Soil Moisture '' @ fmt m @ ''% is out of range (30-60%).'')])
   \<and> length (issue_description_parts fmt t h c l p m) =
       length (filter Not [check_temperature t, check_humidity h, check_co2 c,
                           check_light_intensity l, check_soil_ph p, check_soil_moisture m])
   \<and> issue_description_parts fmt (Finite 19) (Finite 70) (Finite 700) (Finite 5000)
         (Finite 6.5) (Finite 45) =
       [''Temperature '' @ fmt (Finite 19) @ degree @ ''C is out of range (20-25'' @ degree @ ''C).'',
        ''Humidity '' @ fmt (Finite 70) @ ''% is out of range (40-60%).'']"
proof (intro conjI)
  show "issue_description_parts fmt (Finite 19) (Finite 70) (Finite 700) (Finite 5000)
         (Finite 6.5) (Finite 45) =
       [''Temperature '' @ fmt (Finite 19) @ degree @ ''C is out of range (20-25'' @ degree @ ''C).'',
        ''Humidity '' @ fmt (Finite 70) @ ''% is out of range (40-60%).'']"
    by (simp add: issue_description_parts_def Let_def check_defs)
qed (simp_all add: issue_description_parts_def Let_def)


section \<open>Properties of resolving an issue\<close>

text \<open>
  Claim C4, as amended. A logged-in employee who may resolve the issue posts a resolve
  request for an issue with status \<^verbatim>\<open>Ongoing\<close>, and the commit goes through. Then the
  stored issue has status \<^verbatim>\<open>Resolved\<close> and its \<open>resolved_at\<close> is set, to the clock
  reading the request takes; it is not earlier than \<open>created_at\<close> whenever the database is
  the result of a history of requests and the clock has not run backwards over that
  history and the resolve request. Exactly one reading is appended: for the issue's
  greenhouse, with source \<^verbatim>\<open>resolution\<close> and the six configured baseline values 22.5,
  50.0, 700.0, 5000.0, 6.5 and 45.0, whatever the readings stored before. The number of
  issues, the greenhouses and the employees are unchanged.
\<close>

theorem resolve_ongoing_issue:
  assumes "request_method rq = POST"
      and "login_required s rq = Inr e"
      and "get_issue s iid = Some i"
      and "can_resolve s e i"
      and "issue_status i = ''Ongoing''"
      and "commit_succeeds w"
  shows "get_issue (snd (resolve_issue w s rq iid)) iid =
           Some (i\<lparr>issue_status := ''Resolved'', issue_resolved_at := Some (utcnow w 0)\<rparr>)
       \<and> (\<forall>acts. s = run acts \<and> clock_monotone (acts @ [Resolve w rq iid]) \<longrightarrow>
            (\<exists>r t. get_issue (snd (resolve_issue w s rq iid)) iid = Some r
                \<and> issue_status r = ''Resolved''
                \<and> issue_resolved_at r = Some t \<and> issue_created_at r \<le> t))
       \<and> environmental_data (snd (resolve_issue w s rq iid)) =
           environmental_data s @
             [\<lparr>env_id = next_id (map env_id (environmental_data s)),
               env_greenhouse_id = issue_greenhouse_id i,
               env_temperature = Finite 22.5, env_humidity = Finite 50.0,
               env_co2 = Finite 700.0, env_light_intensity = Finite 5000.0,
               env_soil_ph = Finite 6.5, env_soil_moisture = Finite 45.0,
               env_timestamp = utcnow w 1, env_source = ''resolution''\<rparr>]
       \<and> length (issues (snd (resolve_issue w s rq iid))) = length (issues s)
       \<and> greenhouses (snd (resolve_issue w s rq iid)) = greenhouses s
       \<and> employees (snd (resolve_issue w s rq iid)) = employees s"
proof -
  have s': "snd (resolve_issue w s rq iid) = stage_resolution w s i"
    using assms(1-6) by (rule snd_resolve_commit)
  have id: "issue_id i = iid"
    using assms(3) by (rule get_issue_id)
  have f: "find (\<lambda>j. issue_id j = iid) (issues s) = Some i"
    using assms(3) by (simp add: get_issue_def)
  have row: "get_issue (stage_resolution w s i) iid =
           Some (i\<lparr>issue_status := ''Resolved'', issue_resolved_at := Some (utcnow w 0)\<rparr>)"
    using find_map_update [OF f]
    by (simp add: stage_resolution_def Let_def get_issue_def id)
  have clock: "\<forall>acts. s = run acts \<and> clock_monotone (acts @ [Resolve w rq iid]) \<longrightarrow>
            (\<exists>r t. get_issue (stage_resolution w s i) iid = Some r
                \<and> issue_status r = ''Resolved''
                \<and> issue_resolved_at r = Some t \<and> issue_created_at r \<le> t)"
  proof (intro allI impI)
    fix acts
    assume a: "s = run acts \<and> clock_monotone (acts @ [Resolve w rq iid])"
    then have "get_issue (run acts) iid = Some i"
      using assms(3) by simp
    with a have "issue_created_at i \<le> utcnow w 0"
      by (intro history_resolve_clock [of acts w rq iid]) simp_all
    with row show "\<exists>r t. get_issue (stage_resolution w s i) iid = Some r
                \<and> issue_status r = ''Resolved''
                \<and> issue_resolved_at r = Some t \<and> issue_created_at r \<le> t"
      by simp
  qed
  have rest: "environmental_data (stage_resolution w s i) =
           environmental_data s @
             [\<lparr>env_id = next_id (map env_id (environmental_data s)),
               env_greenhouse_id = issue_greenhouse_id i,
               env_temperature = Finite 22.5, env_humidity = Finite 50.0,
               env_co2 = Finite 700.0, env_light_intensity = Finite 5000.0,
               env_soil_ph = Finite 6.5, env_soil_moisture = Finite 45.0,
               env_timestamp = utcnow w 1, env_source = ''resolution''\<rparr>]
       \<and> length (issues (stage_resolution w s i)) = length (issues s)
       \<and> greenhouses (stage_resolution w s i) = greenhouses s
       \<and> employees (stage_resolution w s i) = employees s"
    by (simp add: stage_resolution_def Let_def NORMAL_defs)
  show ?thesis
    unfolding s' using row clock rest by blast
qed

text \<open>After the opening of the example history (alerting reading at time 1000), the
  administrator resolves the issue at time 2000.\<close>

theorem resolve_ongoing_issue_witness:
  "map_option (\<lambda>r. (issue_status r, issue_created_at r, issue_resolved_at r))
     (get_issue
        (snd (resolve_issue (example_world_at 2000) (run example_opening) (example_post 1 []) 1))
        1) =
     Some (''Resolved'', 1001, Some 2000)
   \<and> clock_monotone (example_opening @ [Resolve (example_world_at 2000) (example_post 1 []) 1])
   \<and> drop 1 (environmental_data
        (snd (resolve_issue (example_world_at 2000) (run example_opening) (example_post 1 []) 1))) =
     [\<lparr>env_id = 2, env_greenhouse_id = 1,
       env_temperature = Finite 22.5, env_humidity = Finite 50.0,
       env_co2 = Finite 700.0, env_light_intensity = Finite 5000.0,
       env_soil_ph = Finite 6.5, env_soil_moisture = Finite 45.0,
       env_timestamp = 2001, env_source = ''resolution''\<rparr>]"
proof -
  have len: "length (environmental_data (run example_opening)) = 1"
    by (simp add: example_opening_run)
  note th = resolve_ongoing_issue
      [OF example_post_world(1) example_opening_facts(1) [of "[]"] example_opening_facts(2)
          example_opening_facts(7) example_opening_facts(3) example_clock(1) [of 2000]]
  have mono: "clock_monotone
      (example_opening @ [Resolve (example_world_at 2000) (example_post 1 []) 1])"
    by (rule example_clock(3))
  from th have "\<exists>r t. get_issue
        (snd (resolve_issue (example_world_at 2000) (run example_opening) (example_post 1 []) 1))
        1 = Some r
      \<and> issue_status r = ''Resolved'' \<and> issue_resolved_at r = Some t
      \<and> issue_created_at r \<le> t"
    using mono by blast
  with th mono show ?thesis
    by (auto simp: example_opening_facts(3-6) example_clock(2) len next_id_def
          simp del: One_nat_def)
qed


text \<open>
  The same resolve request with a clock that was set back to 5, computed from the
  definitions: the history ends with a resolved issue whose \<open>resolved_at\<close> lies before its
  \<open>created_at\<close>; \<^verbatim>\<open>resolve_issue\<close> stores what \<^verbatim>\<open>datetime.utcnow()\<close> returns and compares it
  with nothing.
\<close>

theorem resolve_clock_set_back_counterexample:
  "map (\<lambda>j. (issue_status j, issue_created_at j, issue_resolved_at j))
     (issues (run (example_opening @ [Resolve (example_world_at 5) (example_post 1 []) 1]))) =
     [(''Resolved'', 1001, Some 5)]
   \<and> \<not> (1001::nat) \<le> 5"
  by (simp add: run_snoc example_opening_run resolve_issue_def
        login_required_def load_logged_in_user_def get_employee_def get_issue_def can_resolve_def
        stage_resolution_def Let_def reply_def example_world_at_def
        example_world_def example_post_def example_admin_def)

text \<open>
  Claim C5. A logged-in employee who may resolve the issue posts a resolve request for an
  issue whose status is already \<^verbatim>\<open>Resolved\<close>. Then the database is left exactly as it
  was (status and \<open>resolved_at\<close> of the issue included, no reading appended), and the
  employee is redirected with the information message that the issue was already
  resolved; no error is flashed or logged.
\<close>

theorem resolve_already_resolved_noop:
  assumes "request_method rq = POST"
      and "login_required s rq = Inr e"
      and "get_issue s iid = Some i"
      and "can_resolve s e i"
      and "issue_status i = ''Resolved''"
  shows "resolve_issue w s rq iid =
           (\<lparr>response = redirect_back rq,
             flashes = [(''Issue #'' @ str_nat iid @ '' was already resolved.'', ''info'')],
             logs = [], mails = []\<rparr>, s)"
  using assms get_issue_id [OF assms(3)] by (simp add: resolve_issue_def reply_def)

text \<open>In the scenario, the administrator asks to resolve issue 3, which is resolved.\<close>

theorem resolve_already_resolved_noop_witness:
  "resolve_issue example_world example_store (example_post 1 []) 3 =
     (\<lparr>response = Redirect ''/dashboard'',
       flashes = [(''Issue #3 was already resolved.'', ''info'')],
       logs = [], mails = []\<rparr>,
      example_store)"
proof -
  have st: "issue_status (example_issue 3 1 ''Resolved'' 5 (Some 8)) = ''Resolved''"
    by (simp add: example_issue_def)
  have rb: "redirect_back (example_post 1 []) = Redirect ''/dashboard''"
    by (simp add: redirect_back_def example_post_def)
  show ?thesis
    using resolve_already_resolved_noop
      [OF example_post_world(1) example_login [of "[]"] example_get_issue(3)
          example_can_resolve st, of example_world]
    by (simp add: rb str_nat.simps del: One_nat_def)
qed

text \<open>
  Claim C6. A logged-in employee posts a resolve request for an existing issue whose
  greenhouse exists (the foreign key of the issue table) under a positive key (keys are
  autoincremented from 1); by \<open>run_foreign_keys\<close> every issue of every history from the
  empty database is such an issue. The request passes the permission check exactly when
  the employee is an administrator or is assigned to the greenhouse of the issue.
  Otherwise the outcome is the redirect with the message that the employee has no
  permission, and the database is left exactly as it was.
\<close>

theorem resolve_permission:
  assumes "request_method rq = POST"
      and "login_required s rq = Inr e"
      and "get_issue s iid = Some i"
      and "get_greenhouse s (issue_greenhouse_id i) \<noteq> None"
      and "0 < issue_greenhouse_id i"
  shows "if emp_is_admin e \<or> assigned_to e i
         then can_resolve s e i
              \<and> fst (resolve_issue w s rq iid) \<noteq> permission_denied rq
         else \<not> can_resolve s e i
              \<and> resolve_issue w s rq iid = (permission_denied rq, s)"
  using assms
  by (auto simp: resolve_issue_def can_resolve_def assigned_to_def truthy_id_def
        originating_greenhouse_def permission_denied_def reply_def)

text \<open>In the scenario, the worker of greenhouse B is refused at issue 2 (greenhouse C)
  and is not refused at issue 1 (greenhouse B).\<close>

theorem resolve_permission_witness:
  "resolve_issue example_world example_store (example_post 2 []) 2 =
     (permission_denied (example_post 2 []), example_store)
   \<and> fst (resolve_issue example_world example_store (example_post 2 []) 1) \<noteq>
       permission_denied (example_post 2 [])"
proof -
  have g: "get_greenhouse example_store
             (issue_greenhouse_id (example_issue 2 3 ''Ongoing'' 20 None)) \<noteq> None"
          "get_greenhouse example_store
             (issue_greenhouse_id (example_issue 1 2 ''Ongoing'' 10 None)) \<noteq> None"
    by (simp_all add: get_greenhouse_def example_defs)
  have p: "0 < issue_greenhouse_id (example_issue 2 3 ''Ongoing'' 20 None)"
          "0 < issue_greenhouse_id (example_issue 1 2 ''Ongoing'' 10 None)"
    by (simp_all add: example_issue_def)
  have a: "\<not> (emp_is_admin example_worker
               \<or> assigned_to example_worker (example_issue 2 3 ''Ongoing'' 20 None))"
          "emp_is_admin example_worker
             \<or> assigned_to example_worker (example_issue 1 2 ''Ongoing'' 10 None)"
    by (simp_all add: assigned_to_def example_worker_def example_issue_def)
  show ?thesis
    using resolve_permission
            [OF example_post_world(1) example_login_worker [of "[]"] example_get_issue(2)
                g(1) p(1), of example_world]
          resolve_permission
            [OF example_post_world(1) example_login_worker [of "[]"] example_get_issue(1)
                g(2) p(2), of example_world]
    by (simp add: a del: One_nat_def)
qed


section \<open>Properties of the dashboard\<close>

text \<open>
  Claim C7. The dashboard's list of greenhouses is sorted by the key (0 if the greenhouse
  has an ongoing issue, else 1; then the greenhouse's key, ascending) and holds every
  greenhouse once: it is the greenhouses with an ongoing issue in ascending key order
  followed by the others in ascending key order. The first four entries of it are
  displayed. Greenhouses A to D with keys 1 to 4, ongoing issues at B and C only, are
  shown as B, C, A, D; a resolved issue at A changes nothing; with a fifth greenhouse E
  that has an ongoing issue the four shown are B, C, E, A.
\<close>

theorem dashboard_ordering:
  "sorted (map (\<lambda>d. (if has_ongoing_issue s (dd_greenhouse d) then 0 else 1 :: nat,
                          gh_id (dd_greenhouse d)))
             (sorted_greenhouses_data s))
   \<and> mset (map dd_greenhouse (sorted_greenhouses_data s)) = mset (greenhouses s)
   \<and> list_all (\<lambda>d. dd_has_ongoing_issue d = has_ongoing_issue s (dd_greenhouse d))
        (sorted_greenhouses_data s)
   \<and> map dd_greenhouse (sorted_greenhouses_data s) =
        filter (has_ongoing_issue s) (sort_key gh_id (greenhouses s))
          @ filter (\<lambda>gh. \<not> has_ongoing_issue s gh) (sort_key gh_id (greenhouses s))
   \<and> displayed_greenhouses_data s = take 4 (sorted_greenhouses_data s)
   \<and> map (gh_name \<circ> dd_greenhouse)
        (displayed_greenhouses_data
           (example_store\<lparr>issues := [example_issue 1 2 ''Ongoing'' 10 None,
                                    example_issue 2 3 ''Ongoing'' 20 None]\<rparr>)) =
        [''B'', ''C'', ''A'', ''D'']
   \<and> map (gh_name \<circ> dd_greenhouse) (displayed_greenhouses_data example_store) =
        [''B'', ''C'', ''A'', ''D'']
   \<and> map (gh_name \<circ> dd_greenhouse) (displayed_greenhouses_data example_five) =
        [''B'', ''C'', ''E'', ''A'']"
proof (intro conjI)
  have "map (\<lambda>d. (if has_ongoing_issue s (dd_greenhouse d) then 0 else 1 :: nat,
                   gh_id (dd_greenhouse d))) (sorted_greenhouses_data s) =
        map sort_key_fn (sorted_greenhouses_data s)"
    by (rule map_cong)
       (simp_all add: sort_key_fn_def sorted_greenhouses_data_def display_data_flag)
  moreover have "sorted (map sort_key_fn (sorted_greenhouses_data s))"
    by (simp add: sorted_greenhouses_data_def)
  ultimately show "sorted (map (\<lambda>d. (if has_ongoing_issue s (dd_greenhouse d) then 0 else 1 :: nat,
                          gh_id (dd_greenhouse d)))
             (sorted_greenhouses_data s))"
    by (simp only:)
  show "mset (map dd_greenhouse (sorted_greenhouses_data s)) = mset (greenhouses s)"
    by (simp add: sorted_display_greenhouses all_greenhouses_def)
  show "list_all (\<lambda>d. dd_has_ongoing_issue d = has_ongoing_issue s (dd_greenhouse d))
          (sorted_greenhouses_data s)"
    by (simp add: list_all_iff sorted_greenhouses_data_def display_data_flag)
  show "map dd_greenhouse (sorted_greenhouses_data s) =
        filter (has_ongoing_issue s) (sort_key gh_id (greenhouses s))
          @ filter (\<lambda>gh. \<not> has_ongoing_issue s gh) (sort_key gh_id (greenhouses s))"
    by (simp add: sorted_display_greenhouses all_greenhouses_def)
  show "displayed_greenhouses_data s = take 4 (sorted_greenhouses_data s)"
    by (simp add: displayed_greenhouses_data_def)
  show "map (gh_name \<circ> dd_greenhouse)
        (displayed_greenhouses_data
           (example_store\<lparr>issues := [example_issue 1 2 ''Ongoing'' 10 None,
                                    example_issue 2 3 ''Ongoing'' 20 None]\<rparr>)) =
        [''B'', ''C'', ''A'', ''D'']"
    by (simp add: displayed_greenhouses_data_def sorted_greenhouses_data_def
          greenhouse_display_data_def all_greenhouses_def gh_issues_def sort_key_fn_def
          example_defs Let_def)
  show "map (gh_name \<circ> dd_greenhouse) (displayed_greenhouses_data example_store) =
        [''B'', ''C'', ''A'', ''D'']"
    by (simp add: displayed_greenhouses_data_def sorted_greenhouses_data_def
          greenhouse_display_data_def all_greenhouses_def gh_issues_def sort_key_fn_def
          example_defs Let_def)
  show "map (gh_name \<circ> dd_greenhouse) (displayed_greenhouses_data example_five) =
        [''B'', ''C'', ''E'', ''A'']"
    by (simp add: displayed_greenhouses_data_def sorted_greenhouses_data_def
          greenhouse_display_data_def all_greenhouses_def gh_issues_def sort_key_fn_def
          example_five_def example_defs Let_def)
qed


section \<open>Properties of the notification of an opened issue\<close>

text \<open>
  Claim C9, as amended. A reading is submitted by a logged-in employee for an existing
  greenhouse, its six fields are numbers of which at least one is out of range, the commit
  goes through, and no employee assigned to the greenhouse has both an email address and
  the availability flag. Then the reading and the issue are stored, nothing is handed to
  \<^verbatim>\<open>send_email_notification\<close>, one record of level WARNING is written to the application
  log, and the user receives the redirect with the one message that the data were
  recorded: no error, and no warning either.
\<close>

theorem no_recipients_issue_still_recorded:
  assumes "login_required s rq = Inr e"
      and "request_method rq = POST"
      and "get_greenhouse s gid = Some gh"
      and "read_field w rq ''temperature'' = Inr t"
      and "read_field w rq ''humidity'' = Inr h"
      and "read_field w rq ''co2'' = Inr c"
      and "read_field w rq ''light_intensity'' = Inr l"
      and "read_field w rq ''soil_ph'' = Inr p"
      and "read_field w rq ''soil_moisture'' = Inr m"
      and "commit_succeeds w"
      and "\<not> (check_temperature t \<and> check_humidity h \<and> check_co2 c \<and>
               check_light_intensity l \<and> check_soil_ph p \<and> check_soil_moisture m)"
      and "recipient_emails s gh = []"
  shows "fst (input_form w s rq gid) =
           \<lparr>response = Redirect (''/input/'' @ str_nat gid),
            flashes = [(''Data recorded successfully!'', ''success'')],
            logs = [(WARNING, ''Issue detected in Greenhouse '' @ apostrophe @ gh_name gh
                       @ apostrophe @ '', but no active employees with emails are assigned.'')],
            mails = []\<rparr>
       \<and> environmental_data (snd (input_form w s rq gid)) =
           environmental_data s @
             [\<lparr>env_id = next_id (map env_id (environmental_data s)), env_greenhouse_id = gid,
               env_temperature = t, env_humidity = h, env_co2 = c, env_light_intensity = l,
               env_soil_ph = p, env_soil_moisture = m,
               env_timestamp = utcnow w 0, env_source = ''manual''\<rparr>]
       \<and> issues (snd (input_form w s rq gid)) =
           issues s @
             [opened_issue w s gid
                (full_issue_description gh (issue_description_parts (py_format w) t h c l p m))]"
proof -
  have rf: "read_form w rq = Inr (t, h, c, l, p, m)"
    using assms(4-9) by (rule read_form_Inr)
  have ne: "issue_description_parts (py_format w) t h c l p m \<noteq> []"
    using assms(11) by (simp only: parts_empty_iff not_False_eq_True)
  show ?thesis
    unfolding input_form_commit [OF assms(1-3) rf assms(10)]
    using ne assms(12)
    by (simp add: stage_reading_def Let_def opened_issue_def)
qed

text \<open>In the scenario the only employee of greenhouse B is unavailable.\<close>

theorem no_recipients_issue_still_recorded_witness:
  "fst (input_form example_world example_store (example_post 1 example_form_alert) 2) =
     \<lparr>response = Redirect ''/input/2'',
      flashes = [(''Data recorded successfully!'', ''success'')],
      logs = [(WARNING, ''Issue detected in Greenhouse '' @ apostrophe @ ''B'' @ apostrophe
                 @ '', but no active employees with emails are assigned.'')],
      mails = []\<rparr>
   \<and> length (environmental_data
        (snd (input_form example_world example_store (example_post 1 example_form_alert) 2))) = 1
   \<and> length (issues
        (snd (input_form example_world example_store (example_post 1 example_form_alert) 2))) = 4"
proof -
  have c: "\<not> (check_temperature (Finite 19) \<and> check_humidity (Finite 70) \<and> check_co2 (Finite 700)
              \<and> check_light_intensity (Finite 5000) \<and> check_soil_ph (Finite 6.5)
              \<and> check_soil_moisture (Finite 45))"
    by (simp add: check_defs)
  show ?thesis
    using no_recipients_issue_still_recorded
      [OF example_login example_post_world(1) example_get_greenhouse example_fields
          example_post_world(2) c example_no_recipients]
    by (simp add: example_values example_values [simplified] str_nat.simps del: One_nat_def)
       (simp add: example_store_def)
qed


text \<open>
  What the user is told in the scenario, computed from the definitions: an issue is opened
  for greenhouse B, which has no eligible recipient, and the messages flashed are exactly
  the success message, so that no warning reaches the user.
\<close>

theorem no_recipients_warning_counterexample:
  "recipient_emails example_store (example_greenhouse 2 ''B'') = []
   \<and> length (issues (snd (input_form example_world example_store
                             (example_post 1 example_form_alert) 2))) =
       Suc (length (issues example_store))
   \<and> flashes (fst (input_form example_world example_store
                      (example_post 1 example_form_alert) 2)) =
       [(''Data recorded successfully!'', ''success'')]
   \<and> response (fst (input_form example_world example_store
                      (example_post 1 example_form_alert) 2)) = Redirect ''/input/2''"
  by (simp add: input_form_def login_required_def load_logged_in_user_def get_employee_def
        get_greenhouse_def read_form_def read_field_def bind_result_def stage_reading_def
        issue_description_parts_def check_defs recipient_emails_def gh_employees_def
        reply_def Let_def str_nat.simps example_defs)


section \<open>Invariants\<close>

text \<open>
  Claim C8. After every history of requests from the empty database, each stored issue has
  a \<open>resolved_at\<close> exactly when its status is \<^verbatim>\<open>Resolved\<close>. A reading request leaves the
  stored issues as they are and appends only issues with status \<^verbatim>\<open>Ongoing\<close> and no
  \<open>resolved_at\<close>; a resolve request leaves each row of the issue table as it is or sets
  its status to \<^verbatim>\<open>Resolved\<close> and its \<open>resolved_at\<close> to the clock reading, both at once.
\<close>

theorem resolved_at_iff_resolved:
  "list_all (\<lambda>j. (issue_resolved_at j \<noteq> None) = (issue_status j = ''Resolved''))
     (issues (run acts))
   \<and> take (length (issues s)) (issues (snd (input_form w s rq gid))) = issues s
   \<and> list_all (\<lambda>j. issue_status j = ''Ongoing'' \<and> issue_resolved_at j = None)
       (drop (length (issues s)) (issues (snd (input_form w s rq gid))))
   \<and> list_all2
       (\<lambda>j j'. j' = j \<or>
          (issue_status j' = ''Resolved'' \<and> issue_resolved_at j' = Some (utcnow w' 0)))
       (issues s) (issues (snd (resolve_issue w' s rq' iid)))"
proof (intro conjI)
  show "list_all (\<lambda>j. (issue_resolved_at j \<noteq> None) = (issue_status j = ''Resolved''))
     (issues (run acts))"
    by (rule run_consistent)
  show "take (length (issues s)) (issues (snd (input_form w s rq gid))) = issues s"
    using input_form_issues [of w s rq gid] by auto
  show "list_all (\<lambda>j. issue_status j = ''Ongoing'' \<and> issue_resolved_at j = None)
       (drop (length (issues s)) (issues (snd (input_form w s rq gid))))"
    using input_form_issues [of w s rq gid] by (auto simp: opened_issue_def)
  have "list_all2
       (\<lambda>j j'. j' = j \<or>
          (issue_status j' = ''Resolved'' \<and> issue_resolved_at j' = Some (utcnow w' 0)))
       xs (map (resolved w' iid) xs)" for xs
    by (induction xs) (simp_all add: resolved_def)
  then show "list_all2
       (\<lambda>j j'. j' = j \<or>
          (issue_status j' = ''Resolved'' \<and> issue_resolved_at j' = Some (utcnow w' 0)))
       (issues s) (issues (snd (resolve_issue w' s rq' iid)))"
    using resolve_issue_issues [of w' s rq' iid] by (auto simp: list_all2_same)
qed

text \<open>The one issue of the example history is resolved at time 2000.\<close>

theorem resolved_at_iff_resolved_witness:
  "map (\<lambda>j. (issue_status j, issue_resolved_at j)) (issues (run example_history)) =
     [(''Resolved'', Some 2000)]
   \<and> list_all (\<lambda>j. (issue_resolved_at j \<noteq> None) = (issue_status j = ''Resolved''))
       (issues (run example_history))"
  using resolved_at_iff_resolved [of example_history]
  by (simp add: example_run)

text \<open>
  Claim C10. The six configured baseline values 22.5, 50.0, 700.0, 5000.0, 6.5 and 45.0
  satisfy their validators. Hence every reading a resolve request appends has source
  \<^verbatim>\<open>resolution\<close> and no violation string, and after every history of requests from the
  empty database every stored reading with source \<^verbatim>\<open>resolution\<close> has none.
\<close>

theorem baseline_reading_in_range:
  "[NORMAL_TEMP, NORMAL_HUMIDITY, NORMAL_CO2, NORMAL_LIGHT, NORMAL_PH, NORMAL_MOISTURE] =
     [Finite 22.5, Finite 50.0, Finite 700.0, Finite 5000.0, Finite 6.5, Finite 45.0]
   \<and> check_temperature NORMAL_TEMP \<and> check_humidity NORMAL_HUMIDITY \<and> check_co2 NORMAL_CO2
   \<and> check_light_intensity NORMAL_LIGHT \<and> check_soil_ph NORMAL_PH
   \<and> check_soil_moisture NORMAL_MOISTURE
   \<and> list_all (\<lambda>r. env_source r = ''resolution'' \<and> reading_violations fmt r = [])
       (drop (length (environmental_data s))
          (environmental_data (snd (resolve_issue w s rq iid))))
   \<and> list_all (\<lambda>r. reading_violations fmt r = [])
       (filter (\<lambda>r. env_source r = ''resolution'') (environmental_data (run acts)))"
proof (intro conjI)
  show "list_all (\<lambda>r. env_source r = ''resolution'' \<and> reading_violations fmt r = [])
       (drop (length (environmental_data s))
          (environmental_data (snd (resolve_issue w s rq iid))))"
    using resolve_issue_readings [of w s rq iid]
    by (auto simp: baseline_no_violations) (simp add: baseline_reading_def)
  show "list_all (\<lambda>r. reading_violations fmt r = [])
       (filter (\<lambda>r. env_source r = ''resolution'') (environmental_data (run acts)))"
    by (rule run_induct) (simp add: empty_store_def, rule step_resolution_rows)
qed (simp_all add: NORMAL_defs check_defs)

text \<open>The example history ends with one baseline reading.\<close>

theorem baseline_reading_in_range_witness:
  "filter (\<lambda>r. env_source r = ''resolution'') (environmental_data (run example_history)) =
     [baseline_reading 3 1 2001]
   \<and> list_all (\<lambda>r. reading_violations (py_format example_world) r = [])
       (filter (\<lambda>r. env_source r = ''resolution'') (environmental_data (run example_history)))"
  using baseline_reading_in_range [of "py_format example_world" _ _ _ _ example_history]
  by (simp add: example_run baseline_reading_def)


end
